theory Spec2Isabelle
  imports Main
begin

section \<open>Editor core values used by the notebook chat controller\<close>

text \<open>
  Modelled from the spec: the classes \<open>Position\<close>, \<open>Range\<close> and \<open>Selection\<close> of the
  editor core are imported by \<open>notebookChatController.ts\<close> and are not among the sources.
  A position is a line number and a column; \<open>isBefore\<close> is the strict order the spec calls
  "strictly after" (line first, then column); \<open>getEndPosition\<close> reads the end of a range and
  \<open>Selection.fromPositions\<close> with one argument builds the empty selection at that position.
\<close>

record position =
  lineNumber :: nat
  column :: nat

record range =
  startLineNumber :: nat
  startColumn :: nat
  endLineNumber :: nat
  endColumn :: nat

record selection =
  selectionStartLineNumber :: nat
  selectionStartColumn :: nat
  positionLineNumber :: nat
  positionColumn :: nat

definition isBefore :: "position \<Rightarrow> position \<Rightarrow> bool" where
  "isBefore a b =
     (if lineNumber a < lineNumber b then True
      else if lineNumber b < lineNumber a then False
      else column a < column b)"

definition getEndPosition :: "range \<Rightarrow> position" where
  "getEndPosition r = \<lparr>lineNumber = endLineNumber r, column = endColumn r\<rparr>"

definition fromPositions :: "position \<Rightarrow> selection" where
  "fromPositions p =
     \<lparr>selectionStartLineNumber = lineNumber p, selectionStartColumn = column p,
      positionLineNumber = lineNumber p, positionColumn = column p\<rparr>"

text \<open>An edit operation as the cursor-state computer sees it: a range and an optional text.\<close>

record editOperation =
  edit_range :: range
  edit_text :: "string option"

section \<open>EditStrategy.makeChanges: the cursor-state computer\<close>

text \<open>
  The body of the \<open>for\<close> loop of \<open>cursorStateComputerAndInlineDiffCollection\<close>:
  \<open>last = !last || last.isBefore(end) ? end : last\<close>.
\<close>

definition cursorStep :: "position option \<Rightarrow> editOperation \<Rightarrow> position option" where
  "cursorStep lastPos edit =
     (case lastPos of
        None \<Rightarrow> Some (getEndPosition (edit_range edit))
      | Some l \<Rightarrow>
          if isBefore l (getEndPosition (edit_range edit))
          then Some (getEndPosition (edit_range edit))
          else Some l)"

fun cursorLoop :: "position option \<Rightarrow> editOperation list \<Rightarrow> position option" where
  "cursorLoop lastPos [] = lastPos"
| "cursorLoop lastPos (edit # undoEdits) = cursorLoop (cursorStep lastPos edit) undoEdits"

text \<open>\<open>return last && [Selection.fromPositions(last)]\<close>: \<open>null\<close> for no edits.\<close>

definition cursorStateComputer :: "editOperation list \<Rightarrow> selection list option" where
  "cursorStateComputer undoEdits =
     (case cursorLoop None undoEdits of
        None \<Rightarrow> None
      | Some lastPos \<Rightarrow> Some [fromPositions lastPos])"

definition endPositions :: "editOperation list \<Rightarrow> position list" where
  "endPositions undoEdits = map (\<lambda>e. getEndPosition (edit_range e)) undoEdits"

section \<open>EditStrategy: the edit counter and the undo stops\<close>

text \<open>
  The editor is a collaborator of the host. What \<open>EditStrategy\<close> does to it is recorded
  as the list of calls it receives, oldest first: \<open>pushUndoStop()\<close>,
  \<open>executeEdits('inline-chat-live', edits, computer)\<close> (the computer is always the
  cursor-state computer above; the editor applies it to the undo edits it derives), one
  \<open>performAsyncTextEdit\<close> per edit of a progressive change, and \<open>save\<close> of the
  untitled model of the last reply. The pacing of a progressive edit (words per second,
  a floating-point quotient) is not part of the record.
\<close>

datatype editorCall =
    PushUndoStop
  | ExecuteEdits string "editOperation list"
  | PerformAsyncTextEdit editOperation
  | SaveUntitled

record editStrategy =
  editCount :: nat

definition newEditStrategy :: editStrategy where
  "newEditStrategy = \<lparr>editCount = 0\<rparr>"

text \<open>
  \<open>if (++this._editCount === 1) { editor.pushUndoStop(); }\<close>, the common first statement
  of \<open>makeChanges\<close> and \<open>makeProgressiveChanges\<close>.
\<close>

definition pushUndoStopBeforeFirstEdit ::
  "editStrategy \<Rightarrow> editorCall list \<Rightarrow> editStrategy \<times> editorCall list" where
  "pushUndoStopBeforeFirstEdit this editor =
     (let this' = this\<lparr>editCount := editCount this + 1\<rparr>
      in if editCount this' = 1 then (this', editor @ [PushUndoStop]) else (this', editor))"

definition makeProgressiveChanges ::
  "editStrategy \<Rightarrow> editorCall list \<Rightarrow> editOperation list \<Rightarrow> editStrategy \<times> editorCall list" where
  "makeProgressiveChanges this editor edits =
     (let (this', editor') = pushUndoStopBeforeFirstEdit this editor
      in (this', editor' @ map PerformAsyncTextEdit edits))"

definition makeChanges ::
  "editStrategy \<Rightarrow> editorCall list \<Rightarrow> editOperation list \<Rightarrow> editStrategy \<times> editorCall list" where
  "makeChanges this editor edits =
     (let (this', editor') = pushUndoStopBeforeFirstEdit this editor
      in (this', editor' @ [ExecuteEdits ''inline-chat-live'' edits]))"

text \<open>
  The response of a session exchange, as far as the controller reads it: a
  \<open>ReplyResponse\<close> with the type of the raw reply (\<open>response.raw.type\<close>) and its
  optional untitled text model, for which \<open>apply\<close> asks \<open>isDisposed()\<close> and
  \<open>isDirty()\<close>; an \<open>ErrorResponse\<close> wrapping what was thrown; an \<open>EmptyResponse\<close>.
\<close>

record untitledTextModel =
  untitled_isDisposed :: bool
  untitled_isDirty :: bool

datatype 'e response =
    ReplyResponse string "untitledTextModel option"
  | ErrorResponse 'e
  | EmptyResponse

definition apply_strategy ::
  "editStrategy \<Rightarrow> 'e response option \<Rightarrow> editorCall list \<Rightarrow> editorCall list" where
  "apply_strategy this lastResponse editor =
     (let editor' = (if editCount this > 0 then editor @ [PushUndoStop] else editor)
      in case lastResponse of
           Some (ReplyResponse rawType (Some untitled)) \<Rightarrow>
             if \<not> untitled_isDisposed untitled \<and> untitled_isDirty untitled
             then editor' @ [SaveUntitled] else editor'
         | _ \<Rightarrow> editor')"

text \<open>A sequence of edit calls on one strategy, run in order.\<close>

datatype editCall =
    MakeChanges "editOperation list"
  | MakeProgressiveChanges "editOperation list"

definition runEditCall ::
  "editStrategy \<times> editorCall list \<Rightarrow> editCall \<Rightarrow> editStrategy \<times> editorCall list" where
  "runEditCall st c =
     (case c of
        MakeChanges edits \<Rightarrow> makeChanges (fst st) (snd st) edits
      | MakeProgressiveChanges edits \<Rightarrow> makeProgressiveChanges (fst st) (snd st) edits)"

definition runEditCalls ::
  "editStrategy \<times> editorCall list \<Rightarrow> editCall list \<Rightarrow> editStrategy \<times> editorCall list" where
  "runEditCalls st cs = foldl runEditCall st cs"

definition undoStops :: "editorCall list \<Rightarrow> nat" where
  "undoStops editor = length (filter (\<lambda>c. c = PushUndoStop) editor)"

section \<open>EditStrategy.cancel\<close>

text \<open>
  The text model belongs to the host and is not among the sources. \<open>cancel\<close> uses four of
  its methods, which are taken as parameters over an arbitrary type of model states:
  \<open>isDisposed()\<close>, \<open>getAlternativeVersionId()\<close>, \<open>canUndo()\<close> and \<open>undo()\<close>
  (which returns the next state of the model).
\<close>

record 'm textModelHost =
  isDisposed :: "'m \<Rightarrow> bool"
  getAlternativeVersionId :: "'m \<Rightarrow> nat"
  canUndo :: "'m \<Rightarrow> bool"
  undo :: "'m \<Rightarrow> 'm"

text \<open>The fields of the session that \<open>cancel\<close> destructures.\<close>

record 'm session =
  textModelN :: 'm
  textModelNAltVersion :: nat
  textModelNSnapshotAltVersion :: "nat option"

text \<open>\<open>textModelNSnapshotAltVersion ?? textModelNAltVersion\<close>\<close>

definition targetAltVersion :: "'m session \<Rightarrow> nat" where
  "targetAltVersion s =
     (case textModelNSnapshotAltVersion s of
        Some v \<Rightarrow> v
      | None \<Rightarrow> textModelNAltVersion s)"

text \<open>
  The condition of the \<open>while\<close> loop:
  \<open>targetAltVersion < modelN.getAlternativeVersionId() && modelN.canUndo()\<close>.
\<close>

definition undoPending :: "'m textModelHost \<Rightarrow> nat \<Rightarrow> 'm \<Rightarrow> bool" where
  "undoPending host target modelN =
     (target < getAlternativeVersionId host modelN \<and> canUndo host modelN)"

text \<open>
  The loop itself. Nothing in \<open>cancel\<close> bounds it, so it is a partial function: \<open>None\<close>
  is the loop that never ends.
\<close>

partial_function (option) cancelLoop :: "'m textModelHost \<Rightarrow> nat \<Rightarrow> 'm \<Rightarrow> 'm option" where
  "cancelLoop host target modelN =
     (if undoPending host target modelN
      then cancelLoop host target (undo host modelN)
      else Some modelN)"

definition cancel :: "'m textModelHost \<Rightarrow> 'm session \<Rightarrow> 'm option" where
  "cancel host s =
     (if isDisposed host (textModelN s) then Some (textModelN s)
      else cancelLoop host (targetAltVersion s) (textModelN s))"

text \<open>
  \<open>stopsAfter host target m m'\<close>: \<open>m'\<close> is reached from \<open>m\<close> by undo steps, the loop
  condition holds at every state before \<open>m'\<close> and fails at \<open>m'\<close>.
\<close>

definition stopsAfter :: "'m textModelHost \<Rightarrow> nat \<Rightarrow> 'm \<Rightarrow> 'm \<Rightarrow> bool" where
  "stopsAfter host target m m' =
     (\<exists>k. m' = (undo host ^^ k) m
        \<and> (\<forall>i<k. undoPending host target ((undo host ^^ i) m))
        \<and> \<not> undoPending host target m')"

text \<open>
  An instance of the host's text model for the examples below: a buffer with its content,
  its alternative version id and its undo stack, whose entries hold the version id and the
  content that the undo step returns to. One entry may stand for several edits, as the
  edits made between two undo stops do.
\<close>

record bufferModel =
  buffer_content :: string
  buffer_altVersionId :: nat
  buffer_undoStack :: "(nat \<times> string) list"

definition buffer_undo :: "bufferModel \<Rightarrow> bufferModel" where
  "buffer_undo m =
     (case buffer_undoStack m of
        [] \<Rightarrow> m
      | (v, c) # rest \<Rightarrow>
          \<lparr>buffer_content = c, buffer_altVersionId = v, buffer_undoStack = rest\<rparr>)"

definition bufferHost :: "bufferModel textModelHost" where
  "bufferHost =
     \<lparr>isDisposed = (\<lambda>m. False),
      getAlternativeVersionId = buffer_altVersionId,
      canUndo = (\<lambda>m. buffer_undoStack m \<noteq> []),
      undo = buffer_undo\<rparr>"

section \<open>NotebookChatController.acceptInput\<close>















section \<open>The SCM view: tree elements\<close>

text \<open>
  Modelled from the spec: the interfaces of the tree elements and the type guards of
  \<open>./util\<close> (\<open>isSCMRepository\<close>, \<open>isSCMInput\<close>, ...) are imported by \<open>scmViewPane.ts\<close> and
  are not among the sources. \<open>TreeElement\<close> is the tagged union the spec lists, one
  constructor per kind, and each type guard is the test for its constructor. Every
  element carries the fields that the functions below read. \<open>ResourceTree.isResourceNode\<close>
  holds of the folder nodes of both trees, the resource tree and the tree of history-item
  changes.
\<close>

datatype viewMode = ViewModeList | ViewModeTree

datatype viewSortKey = SortKeyPath | SortKeyName | SortKeyStatus

datatype showChangesSetting = Always | Never | Auto

record uri =
  uri_scheme :: string
  uri_authority :: string
  uri_path :: string
  uri_query :: string
  uri_fragment :: string

text \<open>
  The library functions on URIs and names that the view calls, as parameters:
  \<open>uri.toString()\<close>, \<open>uri.fsPath\<close>, \<open>basename(uri)\<close>, \<open>comparePaths\<close>,
  \<open>compareFileNames\<close> and the string comparison \<open>compare\<close>.
\<close>

record scmHost =
  uri_toString :: "uri \<Rightarrow> string"
  uri_fsPath :: "uri \<Rightarrow> string"
  basename :: "uri \<Rightarrow> string"
  comparePaths :: "string \<Rightarrow> string \<Rightarrow> int"
  compareFileNames :: "string \<Rightarrow> string \<Rightarrow> int"
  compareStrings :: "string \<Rightarrow> string \<Rightarrow> int"

record historyItemGroupBase =
  base_id :: string
  base_label :: string

record scmHistoryItemGroup =
  group_id :: string
  group_label :: string
  group_base :: "historyItemGroupBase option"

record commonAncestor =
  ancestor_id :: string
  ahead :: int
  behind :: int

record scmHistoryItemChange =
  change_uri :: uri

text \<open>
  The history provider of an SCM provider: its current history item group and the two
  requests of it that are modelled here, each as the function from the arguments to what
  the awaited promise resolves to.
\<close>

record scmHistoryProvider =
  currentHistoryItemGroup :: "scmHistoryItemGroup option"
  resolveHistoryItemGroupCommonAncestor :: "string \<Rightarrow> string option \<Rightarrow> commonAncestor option"
  provideHistoryItemChanges :: "string \<Rightarrow> string option \<Rightarrow> scmHistoryItemChange list option"

record scmProvider =
  provider_id :: string
  historyProvider :: "scmHistoryProvider option"

record scmRepository =
  repository_provider :: scmProvider

record scmInput =
  input_repository :: scmRepository

record scmActionButton =
  actionButton_repository :: scmRepository

record scmResourceGroup =
  resourceGroup_id :: string
  resourceGroup_provider :: scmProvider

record scmResource =
  resource_resourceGroup :: scmResourceGroup
  resource_sourceUri :: uri
  resource_decorations_tooltip :: "string option"

record scmResourceNode =
  resourceNode_context :: scmResourceGroup
  resourceNode_uri :: uri
  resourceNode_name :: string
  resourceNode_childrenCount :: nat

datatype historyItemGroupDirection = Incoming | Outgoing

datatype codicon = ArrowCircleDown | ArrowCircleUp

record scmHistoryItemGroupTreeElement =
  historyItemGroup_id :: string
  historyItemGroup_label :: string
  historyItemGroup_ariaLabel :: string
  historyItemGroup_icon :: codicon
  historyItemGroup_direction :: historyItemGroupDirection
  historyItemGroup_ancestor :: string
  historyItemGroup_count :: "int option"
  historyItemGroup_repository :: scmRepository

record scmHistoryItemTreeElement =
  historyItem_historyItemGroup :: scmHistoryItemGroupTreeElement
  historyItem_id :: string
  historyItem_parentIds :: "string list"

record scmHistoryItemChangeTreeElement =
  historyItemChange_historyItem :: scmHistoryItemTreeElement
  historyItemChange_uri :: uri

record scmHistoryItemChangeNode =
  historyItemChangeNode_context :: scmHistoryItemTreeElement
  historyItemChangeNode_uri :: uri
  historyItemChangeNode_name :: string
  historyItemChangeNode_childrenCount :: nat

record scmViewSeparatorElement =
  separator_repository :: scmRepository

datatype treeElement =
    isSCMRepository: SCMRepository scmRepository
  | isSCMInput: SCMInput scmInput
  | isSCMActionButton: SCMActionButton scmActionButton
  | isSCMResourceGroup: SCMResourceGroup scmResourceGroup
  | isSCMResource: SCMResource scmResource
  | isSCMResourceNode: SCMResourceNode scmResourceNode
  | isSCMHistoryItemGroupTreeElement: SCMHistoryItemGroup scmHistoryItemGroupTreeElement
  | isSCMHistoryItemTreeElement: SCMHistoryItem scmHistoryItemTreeElement
  | isSCMHistoryItemChangeTreeElement: SCMHistoryItemChange scmHistoryItemChangeTreeElement
  | isSCMHistoryItemChangeNode: SCMHistoryItemChangeNode scmHistoryItemChangeNode
  | isSCMViewSeparator: SCMViewSeparator scmViewSeparatorElement

definition isResourceNode :: "treeElement \<Rightarrow> bool" where
  "isResourceNode element = (isSCMResourceNode element \<or> isSCMHistoryItemChangeNode element)"

datatype scmError =
    InvalidComparison
  | InvalidTreeElement
  | HasChildrenNotImplemented
  | TypeError

text \<open>
  Property reads on an element whose static type the source casts or narrows: \<open>.uri\<close>,
  \<open>.name\<close>, \<open>.sourceUri\<close> and \<open>.decorations\<close> are \<open>undefined\<close> (here \<open>None\<close>) on the
  kinds that do not have them, and reading through \<open>undefined\<close> throws a \<open>TypeError\<close>.
\<close>

definition prop_uri :: "treeElement \<Rightarrow> uri option" where
  "prop_uri element =
     (case element of
        SCMResourceNode n \<Rightarrow> Some (resourceNode_uri n)
      | SCMHistoryItemChange c \<Rightarrow> Some (historyItemChange_uri c)
      | SCMHistoryItemChangeNode n \<Rightarrow> Some (historyItemChangeNode_uri n)
      | _ \<Rightarrow> None)"

definition prop_name :: "treeElement \<Rightarrow> string option" where
  "prop_name element =
     (case element of
        SCMResourceNode n \<Rightarrow> Some (resourceNode_name n)
      | SCMHistoryItemChangeNode n \<Rightarrow> Some (historyItemChangeNode_name n)
      | _ \<Rightarrow> None)"

definition prop_sourceUri :: "treeElement \<Rightarrow> uri option" where
  "prop_sourceUri element =
     (case element of SCMResource r \<Rightarrow> Some (resource_sourceUri r) | _ \<Rightarrow> None)"

definition prop_decorations_tooltip :: "treeElement \<Rightarrow> string option option" where
  "prop_decorations_tooltip element =
     (case element of SCMResource r \<Rightarrow> Some (resource_decorations_tooltip r) | _ \<Rightarrow> None)"

text \<open>Applying a library function to two properties that must both be there.\<close>

definition onBoth :: "('a \<Rightarrow> 'a \<Rightarrow> int) \<Rightarrow> 'a option \<Rightarrow> 'a option \<Rightarrow> scmError + int" where
  "onBoth f a b =
     (case a of
        None \<Rightarrow> Inl TypeError
      | Some x \<Rightarrow> (case b of None \<Rightarrow> Inl TypeError | Some y \<Rightarrow> Inr (f x y)))"

section \<open>SCMTreeSorter.compare\<close>

text \<open>
  \<open>isSCMHistoryItemChangeNode(x) ? x.name : basename(x.uri)\<close> and
  \<open>ResourceTree.isResourceNode(x) ? x.name : basename((x as ISCMResource).sourceUri)\<close>
\<close>

definition historyItemChangeName :: "scmHost \<Rightarrow> treeElement \<Rightarrow> string option" where
  "historyItemChangeName host x =
     (if isSCMHistoryItemChangeNode x then prop_name x
      else map_option (basename host) (prop_uri x))"

definition resourceName :: "scmHost \<Rightarrow> treeElement \<Rightarrow> string option" where
  "resourceName host x =
     (if isResourceNode x then prop_name x
      else map_option (basename host) (prop_sourceUri x))"

text \<open>\<open>x.decorations.tooltip ?? ''\<close>, \<open>None\<close> when \<open>x.decorations\<close> is undefined.\<close>

definition tooltipOrEmpty :: "treeElement \<Rightarrow> string option" where
  "tooltipOrEmpty x =
     map_option (\<lambda>t. case t of None \<Rightarrow> [] | Some s \<Rightarrow> s) (prop_decorations_tooltip x)"

text \<open>The last part of \<open>compare\<close>, from the comment \<open>// Resource (List)\<close> on.\<close>

definition compareResources ::
  "scmHost \<Rightarrow> viewMode \<Rightarrow> viewSortKey \<Rightarrow> treeElement \<Rightarrow> treeElement \<Rightarrow> scmError + int" where
  "compareResources host viewMode viewSortKey one other =
     (if viewMode = ViewModeList then
        (if viewSortKey = SortKeyName then
           onBoth (compareFileNames host)
             (map_option (basename host) (prop_sourceUri one))
             (map_option (basename host) (prop_sourceUri other))
         else
           (case (if viewSortKey = SortKeyStatus
                  then (case tooltipOrEmpty one of
                          None \<Rightarrow> Some (Inl TypeError)
                        | Some oneTooltip \<Rightarrow>
                            (case tooltipOrEmpty other of
                               None \<Rightarrow> Some (Inl TypeError)
                             | Some otherTooltip \<Rightarrow>
                                 if oneTooltip \<noteq> otherTooltip
                                 then Some (Inr (compareStrings host oneTooltip otherTooltip))
                                 else None))
                  else None) of
              Some result \<Rightarrow> result
            | None \<Rightarrow>
                onBoth (comparePaths host)
                  (map_option (uri_fsPath host) (prop_sourceUri one))
                  (map_option (uri_fsPath host) (prop_sourceUri other))))
      else
        (if isResourceNode one \<noteq> isResourceNode other
         then Inr (if isResourceNode one then - 1 else 1)
         else onBoth (compareFileNames host) (resourceName host one) (resourceName host other)))"

definition compare ::
  "scmHost \<Rightarrow> viewMode \<Rightarrow> viewSortKey \<Rightarrow> treeElement \<Rightarrow> treeElement \<Rightarrow> scmError + int" where
  "compare host viewMode viewSortKey one other =
     (if isSCMRepository one then
        (if \<not> isSCMRepository other then Inl InvalidComparison else Inr 0)
      else if isSCMInput one then Inr (- 1)
      else if isSCMInput other then Inr 1
      else if isSCMActionButton one then Inr (- 1)
      else if isSCMActionButton other then Inr 1
      else if isSCMResourceGroup one then
        Inr (if isSCMResourceGroup other then 0 else - 1)
      else if isSCMViewSeparator one then
        Inr (if isSCMResourceGroup other then 1 else - 1)
      else if isSCMHistoryItemGroupTreeElement one then
        Inr (if isSCMHistoryItemGroupTreeElement other then 0 else 1)
      else if isSCMHistoryItemTreeElement one then
        (if \<not> isSCMHistoryItemTreeElement other then Inl InvalidComparison else Inr 0)
      else if isSCMHistoryItemChangeTreeElement one \<or> isSCMHistoryItemChangeNode one then
        (if viewMode = ViewModeList then
           (if \<not> isSCMHistoryItemChangeTreeElement other then Inl InvalidComparison
            else onBoth (comparePaths host)
                   (map_option (uri_fsPath host) (prop_uri one))
                   (map_option (uri_fsPath host) (prop_uri other)))
         else if \<not> isSCMHistoryItemChangeTreeElement other \<and> \<not> isSCMHistoryItemChangeNode other
         then Inl InvalidComparison
         else onBoth (compareFileNames host)
                (historyItemChangeName host one) (historyItemChangeName host other))
      else compareResources host viewMode viewSortKey one other)"

text \<open>
  The order of kinds as the specification words it, to compare \<open>compare\<close> with:
  repository, input box, action button, resource group, separator, history item group,
  in this order; the other kinds have no place in it.
\<close>

definition specKindOrder :: "treeElement \<Rightarrow> nat option" where
  "specKindOrder element =
     (case element of
        SCMRepository r \<Rightarrow> Some 0
      | SCMInput i \<Rightarrow> Some 1
      | SCMActionButton b \<Rightarrow> Some 2
      | SCMResourceGroup g \<Rightarrow> Some 3
      | SCMViewSeparator s \<Rightarrow> Some 4
      | SCMHistoryItemGroup h \<Rightarrow> Some 5
      | _ \<Rightarrow> None)"

section \<open>Values for the examples\<close>

definition exampleHost :: scmHost where
  "exampleHost =
     \<lparr>uri_toString = (\<lambda>u. uri_scheme u @ ''://'' @ uri_authority u @ uri_path u),
      uri_fsPath = uri_path,
      basename = (\<lambda>u. rev (takeWhile (\<lambda>c. c \<noteq> CHR ''/'') (rev (uri_path u)))),
      comparePaths = (\<lambda>a b. int (length a) - int (length b)),
      compareFileNames = (\<lambda>a b. int (length a) - int (length b)),
      compareStrings = (\<lambda>a b. int (length a) - int (length b))\<rparr>"

definition exampleProvider :: scmProvider where
  "exampleProvider = \<lparr>provider_id = ''scm0'', historyProvider = None\<rparr>"

definition exampleRepository :: scmRepository where
  "exampleRepository = \<lparr>repository_provider = exampleProvider\<rparr>"

section \<open>getSCMResourceId and SCMTreeDataSource.hasChildren\<close>

text \<open>
  A value as the two functions may meet it at run time: the view service (the root of the
  tree), a tree element, or anything else, for which their last \<open>else\<close> branch throws.
\<close>

datatype scmValue = ViewService | Element treeElement | OtherValue



text \<open>
  \<open>hasChildren\<close>; \<open>visibleRepositories\<close> is \<open>this.scmViewService.visibleRepositories\<close>.
  The test \<open>ResourceTree.isResourceNode\<close> comes after the one for a resource and accepts
  the folder nodes of both trees.
\<close>

definition hasChildren :: "scmRepository list \<Rightarrow> scmValue \<Rightarrow> scmError + bool" where
  "hasChildren visibleRepositories inputOrElement =
     (case inputOrElement of
        ViewService \<Rightarrow> Inr (length visibleRepositories \<noteq> 0)
      | Element (SCMRepository r) \<Rightarrow> Inr True
      | Element (SCMInput i) \<Rightarrow> Inr False
      | Element (SCMActionButton b) \<Rightarrow> Inr False
      | Element (SCMResourceGroup g) \<Rightarrow> Inr True
      | Element (SCMResource r) \<Rightarrow> Inr False
      | Element (SCMResourceNode n) \<Rightarrow> Inr (resourceNode_childrenCount n > 0)
      | Element (SCMHistoryItemChangeNode n) \<Rightarrow> Inr (historyItemChangeNode_childrenCount n > 0)
      | Element (SCMHistoryItemGroup h) \<Rightarrow> Inr True
      | Element (SCMHistoryItem h) \<Rightarrow> Inr True
      | Element (SCMHistoryItemChange c) \<Rightarrow> Inr False
      | Element (SCMViewSeparator s) \<Rightarrow> Inr False
      | OtherValue \<Rightarrow> Inl HasChildrenNotImplemented)"

datatype elementKind =
    KindRepository | KindInput | KindActionButton | KindResourceGroup | KindResource
  | KindResourceFolder | KindHistoryItemGroup | KindHistoryItem | KindHistoryItemChange
  | KindHistoryItemChangeFolder | KindSeparator

text \<open>The kind of a tree element, one for each member of the union.\<close>

definition elementKindOf :: "treeElement \<Rightarrow> elementKind" where
  "elementKindOf element =
     (case element of
        SCMRepository r \<Rightarrow> KindRepository
      | SCMInput i \<Rightarrow> KindInput
      | SCMActionButton b \<Rightarrow> KindActionButton
      | SCMResourceGroup g \<Rightarrow> KindResourceGroup
      | SCMResource r \<Rightarrow> KindResource
      | SCMResourceNode n \<Rightarrow> KindResourceFolder
      | SCMHistoryItemGroup h \<Rightarrow> KindHistoryItemGroup
      | SCMHistoryItem h \<Rightarrow> KindHistoryItem
      | SCMHistoryItemChange c \<Rightarrow> KindHistoryItemChange
      | SCMHistoryItemChangeNode n \<Rightarrow> KindHistoryItemChangeFolder
      | SCMViewSeparator s \<Rightarrow> KindSeparator)"









definition exampleResourceGroup :: scmResourceGroup where
  "exampleResourceGroup =
     \<lparr>resourceGroup_id = ''workingTree'', resourceGroup_provider = exampleProvider\<rparr>"

definition exampleUri :: uri where
  "exampleUri =
     \<lparr>uri_scheme = ''file'', uri_authority = '''', uri_path = ''/src/main.ts'',
      uri_query = '''', uri_fragment = ''''\<rparr>"

section \<open>SCMTreeDataSource: history item groups and history item changes\<close>

text \<open>
  The entry of \<open>historyProviderCache\<close> for a repository, with the fields the two functions
  below read and write, and the cache itself, a map from repositories to entries.
\<close>

record historyProviderCacheEntry =
  incomingHistoryItemGroup :: "scmHistoryItemGroupTreeElement option"
  outgoingHistoryItemGroup :: "scmHistoryItemGroupTreeElement option"
  historyItemChanges :: "string \<rightharpoonup> scmHistoryItemChange list"

type_synonym historyProviderCache = "scmRepository \<rightharpoonup> historyProviderCacheEntry"

definition getHistoryProviderCacheEntry ::
  "historyProviderCache \<Rightarrow> scmRepository \<Rightarrow> historyProviderCacheEntry" where
  "getHistoryProviderCacheEntry cache repository =
     (case cache repository of
        Some entry \<Rightarrow> entry
      | None \<Rightarrow>
          \<lparr>incomingHistoryItemGroup = None, outgoingHistoryItemGroup = None,
           historyItemChanges = Map.empty\<rparr>)"

text \<open>The two settings of \<open>getConfiguration()\<close> that \<open>getHistoryItemGroups\<close> reads.\<close>

record scmConfiguration =
  showIncomingChanges :: showChangesSetting
  showOutgoingChanges :: showChangesSetting

text \<open>
  The block from \<open>let incomingHistoryItemGroup = ...\<close> to the end of
  \<open>if (!incomingHistoryItemGroup && !outgoingHistoryItemGroup) { ... }\<close>: the two groups
  come from the cache entry when it has one of them; otherwise the common ancestor is
  resolved, and when there is none the result is \<open>None\<close> (the function returns \<open>[]\<close>),
  else the groups are built, the incoming one only for a base, and stored in the cache.
\<close>

definition resolveHistoryItemGroups ::
  "historyProviderCache \<Rightarrow> scmRepository \<Rightarrow> scmHistoryProvider \<Rightarrow> scmHistoryItemGroup
     \<Rightarrow> (scmHistoryItemGroupTreeElement option \<times> scmHistoryItemGroupTreeElement option
          \<times> historyProviderCache) option" where
  "resolveHistoryItemGroups cache element hp current =
     (let historyProviderCacheEntry = getHistoryProviderCacheEntry cache element;
          incoming = incomingHistoryItemGroup historyProviderCacheEntry;
          outgoing = outgoingHistoryItemGroup historyProviderCacheEntry
      in if incoming = None \<and> outgoing = None then
           (case resolveHistoryItemGroupCommonAncestor hp
                   (group_id current)
                   (map_option base_id (group_base current)) of
              None \<Rightarrow> None
            | Some ancestor \<Rightarrow>
                let incoming' =
                      (case group_base current of
                         None \<Rightarrow> None
                       | Some base \<Rightarrow>
                           Some \<lparr>historyItemGroup_id = base_id base,
                                 historyItemGroup_label = base_label base,
                                 historyItemGroup_ariaLabel =
                                   ''Incoming changes from '' @ base_label base,
                                 historyItemGroup_icon = ArrowCircleDown,
                                 historyItemGroup_direction = Incoming,
                                 historyItemGroup_ancestor = ancestor_id ancestor,
                                 historyItemGroup_count = Some (behind ancestor),
                                 historyItemGroup_repository = element\<rparr>);
                    outgoing' =
                      \<lparr>historyItemGroup_id = group_id current,
                       historyItemGroup_label = group_label current,
                       historyItemGroup_ariaLabel =
                         ''Outgoing changes to '' @ group_label current,
                       historyItemGroup_icon = ArrowCircleUp,
                       historyItemGroup_direction = Outgoing,
                       historyItemGroup_ancestor = ancestor_id ancestor,
                       historyItemGroup_count = Some (ahead ancestor),
                       historyItemGroup_repository = element\<rparr>
                in Some (incoming', Some outgoing',
                         cache(element \<mapsto> historyProviderCacheEntry
                           \<lparr>incomingHistoryItemGroup := incoming',
                            outgoingHistoryItemGroup := Some outgoing'\<rparr>)))
         else Some (incoming, outgoing, cache))"

text \<open>
  \<open>if (group && (setting === 'always' || (setting === 'auto' && (group.count ?? 0) > 0)))
  { children.push(group); }\<close>, the statement under \<open>// Incoming\<close> and under \<open>// Outgoing\<close>.
\<close>

definition pushIfShown ::
  "showChangesSetting \<Rightarrow> scmHistoryItemGroupTreeElement option
     \<Rightarrow> scmHistoryItemGroupTreeElement list" where
  "pushIfShown setting historyItemGroup =
     (case historyItemGroup of
        None \<Rightarrow> []
      | Some g \<Rightarrow>
          if setting = Always
             \<or> (setting = Auto
                 \<and> (case historyItemGroup_count g of None \<Rightarrow> 0 | Some c \<Rightarrow> c) > 0)
          then [g] else [])"

definition getHistoryItemGroups ::
  "scmConfiguration \<Rightarrow> historyProviderCache \<Rightarrow> scmRepository
     \<Rightarrow> scmHistoryItemGroupTreeElement list \<times> historyProviderCache" where
  "getHistoryItemGroups configuration cache element =
     (case historyProvider (repository_provider element) of
        None \<Rightarrow> ([], cache)
      | Some hp \<Rightarrow>
     (case currentHistoryItemGroup hp of
        None \<Rightarrow> ([], cache)
      | Some current \<Rightarrow>
          if showIncomingChanges configuration = Never
             \<and> showOutgoingChanges configuration = Never
          then ([], cache)
          else
            (case resolveHistoryItemGroups cache element hp current of
               None \<Rightarrow> ([], cache)
             | Some (incoming, outgoing, cache') \<Rightarrow>
                 (pushIfShown (showIncomingChanges configuration) incoming
                    @ pushIfShown (showOutgoingChanges configuration) outgoing,
                  cache'))))"

text \<open>
  The key of a history item in the map of history item changes:
  \<open>`${element.id}/${historyItemParentId}`\<close>, where the parent id is the first of
  \<open>parentIds\<close> and \<open>undefined\<close>, printed as such by the template, when there is none.
\<close>

definition historyItemParentId :: "scmHistoryItemTreeElement \<Rightarrow> string option" where
  "historyItemParentId element =
     (case historyItem_parentIds element of [] \<Rightarrow> None | p # ps \<Rightarrow> Some p)"

definition historyItemChangesKey :: "scmHistoryItemTreeElement \<Rightarrow> string" where
  "historyItemChangesKey element =
     historyItem_id element @ ''/''
       @ (case historyItemParentId element of None \<Rightarrow> ''undefined'' | Some p \<Rightarrow> p)"

text \<open>
  \<open>getHistoryItemChanges\<close> in list mode: the changes come from the cache entry under the
  key above, or else from the provider (\<open>?? []\<close>), and are then stored under that key;
  each change is returned with the history item it is shown under. (In tree mode the
  same changes are put into a \<open>ResourceTree\<close>, which is not among the sources.)
\<close>

definition getHistoryItemChanges ::
  "historyProviderCache \<Rightarrow> scmHistoryItemTreeElement
     \<Rightarrow> scmHistoryItemChangeTreeElement list \<times> historyProviderCache" where
  "getHistoryItemChanges cache element =
     (let repository = historyItemGroup_repository (historyItem_historyItemGroup element)
      in case historyProvider (repository_provider repository) of
           None \<Rightarrow> ([], cache)
         | Some hp \<Rightarrow>
             let historyProviderCacheEntry = getHistoryProviderCacheEntry cache repository;
                 historyItemChangesMap = historyItemChanges historyProviderCacheEntry;
                 (changes, cache') =
                   (case historyItemChangesMap (historyItemChangesKey element) of
                      Some cached \<Rightarrow> (cached, cache)
                    | None \<Rightarrow>
                        let provided =
                              (case provideHistoryItemChanges hp (historyItem_id element)
                                      (historyItemParentId element) of
                                 None \<Rightarrow> []
                               | Some cs \<Rightarrow> cs)
                        in (provided,
                            cache(repository \<mapsto> historyProviderCacheEntry
                              \<lparr>historyItemChanges :=
                                 historyItemChangesMap
                                   (historyItemChangesKey element \<mapsto> provided)\<rparr>)))
             in (map (\<lambda>change. \<lparr>historyItemChange_historyItem = element,
                                   historyItemChange_uri = change_uri change\<rparr>) changes,
                 cache'))"

text \<open>
  A repository with a history provider for the examples: the current group is \<open>main\<close>
  with base \<open>origin/main\<close>, two items ahead and none behind the common ancestor; the
  changes of a history item are one file named after the item, so that different items
  have different changes.
\<close>

definition exampleHistoryProvider :: scmHistoryProvider where
  "exampleHistoryProvider =
     \<lparr>currentHistoryItemGroup =
        Some \<lparr>group_id = ''main'', group_label = ''main'',
              group_base = Some \<lparr>base_id = ''origin/main'', base_label = ''origin/main''\<rparr>\<rparr>,
      resolveHistoryItemGroupCommonAncestor =
        (\<lambda>groupId baseId. Some \<lparr>ancestor_id = ''0000'', ahead = 2, behind = 0\<rparr>),
      provideHistoryItemChanges =
        (\<lambda>itemId parentId.
           Some [\<lparr>change_uri = \<lparr>uri_scheme = ''file'', uri_authority = '''',
                    uri_path = ''/'' @ itemId, uri_query = '''', uri_fragment = ''''\<rparr>\<rparr>])\<rparr>"

definition exampleHistoryRepository :: scmRepository where
  "exampleHistoryRepository =
     \<lparr>repository_provider =
        \<lparr>provider_id = ''scm1'', historyProvider = Some exampleHistoryProvider\<rparr>\<rparr>"

definition exampleHistoryItem :: "string \<Rightarrow> string list \<Rightarrow> scmHistoryItemTreeElement" where
  "exampleHistoryItem itemId parentIds =
     \<lparr>historyItem_historyItemGroup =
        \<lparr>historyItemGroup_id = ''main'', historyItemGroup_label = ''main'',
         historyItemGroup_ariaLabel = ''Outgoing changes to main'',
         historyItemGroup_icon = ArrowCircleUp, historyItemGroup_direction = Outgoing,
         historyItemGroup_ancestor = ''0000'', historyItemGroup_count = Some 2,
         historyItemGroup_repository = exampleHistoryRepository\<rparr>,
      historyItem_id = itemId, historyItem_parentIds = parentIds\<rparr>"

section \<open>Properties of the cursor-state computer\<close>

lemma isBefore_irrefl: "\<not> isBefore p p"
  by (simp add: isBefore_def)

lemma isBefore_trans: "isBefore a b \<Longrightarrow> isBefore b c \<Longrightarrow> isBefore a c"
  by (auto simp: isBefore_def split: if_splits)

lemma not_isBefore_trans: "\<not> isBefore a b \<Longrightarrow> \<not> isBefore b c \<Longrightarrow> \<not> isBefore a c"
  by (auto simp: isBefore_def split: if_splits)

lemma cursorLoop_Some:
  "\<exists>p. cursorLoop (Some l) es = Some p
       \<and> (p = l \<or> p \<in> set (endPositions es))
       \<and> \<not> isBefore p l
       \<and> (\<forall>q \<in> set (endPositions es). \<not> isBefore p q)"
proof (induction es arbitrary: l)
  case Nil
  show ?case by (simp add: endPositions_def isBefore_irrefl)
next
  case (Cons e es)
  let ?q = "getEndPosition (edit_range e)"
  show ?case
  proof (cases "isBefore l ?q")
    case True
    from Cons.IH [of ?q] obtain p where
      p: "cursorLoop (Some ?q) es = Some p" "p = ?q \<or> p \<in> set (endPositions es)"
         "\<not> isBefore p ?q" "\<forall>q \<in> set (endPositions es). \<not> isBefore p q"
      by blast
    have "\<not> isBefore p l"
    proof
      assume "isBefore p l"
      then have "isBefore p ?q" using True by (rule isBefore_trans)
      with p(3) show False by simp
    qed
    with p True show ?thesis
      by (auto simp: cursorStep_def endPositions_def)
  next
    case False
    from Cons.IH [of l] obtain p where
      p: "cursorLoop (Some l) es = Some p" "p = l \<or> p \<in> set (endPositions es)"
         "\<not> isBefore p l" "\<forall>q \<in> set (endPositions es). \<not> isBefore p q"
      by blast
    from p(3) False have "\<not> isBefore p ?q" by (rule not_isBefore_trans)
    with p False show ?thesis
      by (auto simp: cursorStep_def endPositions_def)
  qed
qed

text \<open>
  Claim C1. For a non-empty list of edit operations the cursor-state computer of
  \<open>EditStrategy.makeChanges\<close> returns exactly one selection, the empty selection at a
  position \<open>p\<close> that is the end position of one of the edits and that no edit's end
  position lies strictly after; and the candidate is replaced by a later edit's end
  position only when that end is strictly after it (on a tie the candidate is kept).
\<close>

theorem cursorStateComputer_maximal_end:
  assumes "undoEdits \<noteq> []"
  shows "\<exists>p. cursorStateComputer undoEdits = Some [fromPositions p]
           \<and> p \<in> set (endPositions undoEdits)
           \<and> (\<forall>q \<in> set (endPositions undoEdits). \<not> isBefore p q)
           \<and> (\<forall>l e. cursorStep (Some l) e =
                 (if isBefore l (getEndPosition (edit_range e))
                  then Some (getEndPosition (edit_range e)) else Some l))"
proof -
  from assms obtain e es where ues: "undoEdits = e # es" by (cases undoEdits) auto
  let ?q = "getEndPosition (edit_range e)"
  from cursorLoop_Some [of ?q es] obtain p where
    p: "cursorLoop (Some ?q) es = Some p" "p = ?q \<or> p \<in> set (endPositions es)"
       "\<not> isBefore p ?q" "\<forall>q \<in> set (endPositions es). \<not> isBefore p q"
    by blast
  have "cursorStateComputer undoEdits = Some [fromPositions p]"
    using p(1) by (simp add: ues cursorStateComputer_def cursorStep_def)
  moreover have "p \<in> set (endPositions undoEdits)"
    using p(2) by (auto simp: ues endPositions_def)
  moreover have "\<forall>q \<in> set (endPositions undoEdits). \<not> isBefore p q"
    using p(3,4) by (auto simp: ues endPositions_def)
  moreover have "\<forall>l e. cursorStep (Some l) e =
                 (if isBefore l (getEndPosition (edit_range e))
                  then Some (getEndPosition (edit_range e)) else Some l)"
    by (simp add: cursorStep_def)
  ultimately show ?thesis by blast
qed

theorem cursorStateComputer_maximal_end_witness:
  "[\<lparr>edit_range = \<lparr>startLineNumber = 1, startColumn = 1, endLineNumber = 3, endColumn = 4\<rparr>,
      edit_text = Some ''a''\<rparr>,
    \<lparr>edit_range = \<lparr>startLineNumber = 5, startColumn = 2, endLineNumber = 5, endColumn = 9\<rparr>,
      edit_text = None\<rparr>,
    \<lparr>edit_range = \<lparr>startLineNumber = 4, startColumn = 1, endLineNumber = 5, endColumn = 9\<rparr>,
      edit_text = Some ''b''\<rparr>] \<noteq> []
   \<and> cursorStateComputer
     [\<lparr>edit_range = \<lparr>startLineNumber = 1, startColumn = 1, endLineNumber = 3, endColumn = 4\<rparr>,
        edit_text = Some ''a''\<rparr>,
      \<lparr>edit_range = \<lparr>startLineNumber = 5, startColumn = 2, endLineNumber = 5, endColumn = 9\<rparr>,
        edit_text = None\<rparr>,
      \<lparr>edit_range = \<lparr>startLineNumber = 4, startColumn = 1, endLineNumber = 5, endColumn = 9\<rparr>,
        edit_text = Some ''b''\<rparr>]
     = Some [fromPositions \<lparr>lineNumber = 5, column = 9\<rparr>]"
  using cursorStateComputer_maximal_end
    [of "[\<lparr>edit_range = \<lparr>startLineNumber = 1, startColumn = 1, endLineNumber = 3, endColumn = 4\<rparr>,
            edit_text = Some ''a''\<rparr>,
          \<lparr>edit_range = \<lparr>startLineNumber = 5, startColumn = 2, endLineNumber = 5, endColumn = 9\<rparr>,
            edit_text = None\<rparr>,
          \<lparr>edit_range = \<lparr>startLineNumber = 4, startColumn = 1, endLineNumber = 5, endColumn = 9\<rparr>,
            edit_text = Some ''b''\<rparr>]"]
  by (auto simp: endPositions_def getEndPosition_def isBefore_def)

section \<open>Properties of the undo stops\<close>

lemma undoStops_append: "undoStops (xs @ ys) = undoStops xs + undoStops ys"
  by (simp add: undoStops_def)

lemma undoStops_map_async: "undoStops (map PerformAsyncTextEdit edits) = 0"
  by (induction edits) (simp_all add: undoStops_def)

lemma runEditCall_step:
  "editCount (fst (runEditCall (this, editor) c)) = editCount this + 1
   \<and> undoStops (snd (runEditCall (this, editor) c))
       = undoStops editor + (if editCount this = 0 then 1 else 0)"
  by (cases c)
     (simp_all add: runEditCall_def makeChanges_def makeProgressiveChanges_def
        pushUndoStopBeforeFirstEdit_def Let_def undoStops_append undoStops_map_async,
      simp_all add: undoStops_def)

lemma runEditCalls_count:
  "editCount (fst (runEditCalls (this, editor) cs)) = editCount this + length cs
   \<and> undoStops (snd (runEditCalls (this, editor) cs))
       = undoStops editor + (if editCount this = 0 \<and> cs \<noteq> [] then 1 else 0)"
proof (induction cs arbitrary: this editor)
  case Nil
  show ?case by (simp add: runEditCalls_def)
next
  case (Cons c cs)
  obtain this' editor' where st: "runEditCall (this, editor) c = (this', editor')"
    by (cases "runEditCall (this, editor) c")
  from runEditCall_step [of this editor c] st
  have step: "editCount this' = editCount this + 1"
    "undoStops editor' = undoStops editor + (if editCount this = 0 then 1 else 0)"
    by simp_all
  have "runEditCalls (this, editor) (c # cs) = runEditCalls (this', editor') cs"
    by (simp add: runEditCalls_def st)
  with Cons.IH [of this' editor'] step show ?case by simp
qed

text \<open>
  Claim C7. Run any sequence of \<open>makeChanges\<close> and \<open>makeProgressiveChanges\<close> calls on a
  new \<open>EditStrategy\<close>: the edit counter ends at the number of calls and the editor has
  received exactly one undo stop from them when there was a call, none otherwise. In any
  state, an edit call pushes an undo stop exactly when it takes the counter from 0 to 1, so
  no later call pushes one. \<open>apply\<close> pushes one more undo stop exactly when the counter
  is positive.
\<close>

theorem initial_and_final_undo_stop:
  "editCount (fst (runEditCalls (newEditStrategy, editor) calls)) = length calls
   \<and> undoStops (snd (runEditCalls (newEditStrategy, editor) calls))
       = undoStops editor + (if calls = [] then 0 else 1)
   \<and> editCount (fst (runEditCall (this, editor) c)) = editCount this + 1
   \<and> undoStops (snd (runEditCall (this, editor) c))
       = undoStops editor + (if editCount this = 0 then 1 else 0)
   \<and> undoStops (apply_strategy this lastResponse editor)
       = undoStops editor + (if editCount this > 0 then 1 else 0)"
proof -
  have a: "editCount (fst (runEditCalls (newEditStrategy, editor) calls)) = length calls"
    using runEditCalls_count [of newEditStrategy editor calls]
    by (simp add: newEditStrategy_def)
  have b: "undoStops (snd (runEditCalls (newEditStrategy, editor) calls))
       = undoStops editor + (if calls = [] then 0 else 1)"
    using runEditCalls_count [of newEditStrategy editor calls]
    by (simp add: newEditStrategy_def)
  have c: "undoStops (apply_strategy this lastResponse editor)
       = undoStops editor + (if editCount this > 0 then 1 else 0)"
    by (simp add: apply_strategy_def Let_def undoStops_def
          split: option.splits response.splits)
  from a b c runEditCall_step [of this editor c] show ?thesis by blast
qed

theorem initial_and_final_undo_stop_witness:
  "undoStops (snd (runEditCalls (newEditStrategy, [])
       [MakeProgressiveChanges [], MakeChanges [], MakeChanges []])) = 1
   \<and> undoStops (apply_strategy
         (fst (runEditCalls (newEditStrategy, []) [MakeProgressiveChanges [], MakeChanges []]))
         (Some (EmptyResponse :: unit response))
         (snd (runEditCalls (newEditStrategy, []) [MakeProgressiveChanges [], MakeChanges []]))) = 2
   \<and> undoStops (apply_strategy newEditStrategy (None :: unit response option) []) = 0"
  using initial_and_final_undo_stop
    [of "[]" "[MakeProgressiveChanges [], MakeChanges [], MakeChanges []]" newEditStrategy
        "MakeChanges []" "None :: unit response option"]
    initial_and_final_undo_stop
    [of "[]" "[MakeProgressiveChanges [], MakeChanges []]"
        "fst (runEditCalls (newEditStrategy, []) [MakeProgressiveChanges [], MakeChanges []])"
        "MakeChanges []" "Some (EmptyResponse :: unit response)"]
    initial_and_final_undo_stop
    [of "snd (runEditCalls (newEditStrategy, []) [MakeProgressiveChanges [], MakeChanges []])"
        "[MakeProgressiveChanges [], MakeChanges []]"
        "fst (runEditCalls (newEditStrategy, []) [MakeProgressiveChanges [], MakeChanges []])"
        "MakeChanges []" "Some (EmptyResponse :: unit response)"]
  by (simp add: undoStops_def newEditStrategy_def)

section \<open>Properties of cancel\<close>

lemma stopsAfter_now: "\<not> undoPending host t m \<Longrightarrow> stopsAfter host t m m"
  unfolding stopsAfter_def by (intro exI [of _ 0]) simp

lemma stopsAfter_step:
  assumes "undoPending host t m" and "stopsAfter host t (undo host m) m'"
  shows "stopsAfter host t m m'"
proof -
  from assms(2) obtain k where
    k: "m' = (undo host ^^ k) (undo host m)"
       "\<forall>i<k. undoPending host t ((undo host ^^ i) (undo host m))"
       "\<not> undoPending host t m'"
    unfolding stopsAfter_def by blast
  have "undoPending host t ((undo host ^^ i) m)" if "i < Suc k" for i
  proof (cases i)
    case 0
    with assms(1) show ?thesis by simp
  next
    case (Suc j)
    with that k(2) show ?thesis by (simp add: funpow_swap1)
  qed
  with k(1,3) show ?thesis
    unfolding stopsAfter_def by (intro exI [of _ "Suc k"]) (simp add: funpow_swap1)
qed

lemma cancelLoop_result:
  "cancelLoop host t m = Some m' \<Longrightarrow> stopsAfter host t m m'"
proof (rule cancelLoop.raw_induct [where P = stopsAfter])
  fix loop :: "'m textModelHost \<Rightarrow> nat \<Rightarrow> 'm \<Rightarrow> 'm option" and h u x y
  assume ih: "\<And>h u x y. loop h u x = Some y \<Longrightarrow> stopsAfter h u x y"
    and body: "(if undoPending h u x then loop h u (undo h x) else Some x) = Some y"
  show "stopsAfter h u x y"
  proof (cases "undoPending h u x")
    case False
    with body have "y = x" by simp
    with False show ?thesis by (simp add: stopsAfter_now)
  next
    case True
    with body have "loop h u (undo h x) = Some y" by simp
    then have "stopsAfter h u (undo h x) y" by (rule ih)
    with True show ?thesis by (rule stopsAfter_step)
  qed
qed

lemma cancelLoop_exit:
  "(\<forall>i<k. undoPending host t ((undo host ^^ i) m)) \<Longrightarrow>
   \<not> undoPending host t ((undo host ^^ k) m) \<Longrightarrow>
   cancelLoop host t m = Some ((undo host ^^ k) m)"
proof (induction k arbitrary: m)
  case 0
  then show ?case by (subst cancelLoop.simps) simp
next
  case (Suc k)
  from Suc.prems(1) have p0: "undoPending host t m" by (metis funpow_0 zero_less_Suc)
  have "\<forall>i<k. undoPending host t ((undo host ^^ i) (undo host m))"
    using Suc.prems(1) by (metis Suc_less_eq funpow_Suc_right o_apply)
  moreover have "\<not> undoPending host t ((undo host ^^ k) (undo host m))"
    using Suc.prems(2) by (simp add: funpow_swap1)
  ultimately have "cancelLoop host t (undo host m) = Some ((undo host ^^ k) (undo host m))"
    by (rule Suc.IH)
  with p0 show ?case by (subst cancelLoop.simps) (simp add: funpow_swap1)
qed

lemma cancelLoop_iff:
  "(cancelLoop host t m = Some m') = stopsAfter host t m m'"
proof
  assume "cancelLoop host t m = Some m'"
  then show "stopsAfter host t m m'" by (rule cancelLoop_result)
next
  assume "stopsAfter host t m m'"
  then obtain k where "m' = (undo host ^^ k) m"
    "\<forall>i<k. undoPending host t ((undo host ^^ i) m)" "\<not> undoPending host t m'"
    unfolding stopsAfter_def by blast
  then show "cancelLoop host t m = Some m'" by (simp add: cancelLoop_exit)
qed

text \<open>
  Claim C2, as stated, at a buffer whose alternative version id is 5, with two undo steps
  left: the first returns to version 2 (it undoes the edits 3, 4 and 5 together), the
  second to version 1. The session's snapshot version is 3. \<open>cancel\<close> takes one undo step
  and stops at version 2, below the snapshot version, with the content of version 2 and
  with an undo step still available: the version id has not returned to the snapshot
  version, and the loop has not stopped for want of an undo step.
\<close>

theorem cancel_overshoots_snapshot:
  "\<not> isDisposed bufferHost
       (textModelN \<lparr>textModelN =
          \<lparr>buffer_content = ''abcd'', buffer_altVersionId = 5,
           buffer_undoStack = [(2, ''a''), (1, '''')]\<rparr>,
          textModelNAltVersion = 1, textModelNSnapshotAltVersion = Some 3\<rparr>)
   \<and> cancel bufferHost
       \<lparr>textModelN =
          \<lparr>buffer_content = ''abcd'', buffer_altVersionId = 5,
           buffer_undoStack = [(2, ''a''), (1, '''')]\<rparr>,
        textModelNAltVersion = 1, textModelNSnapshotAltVersion = Some 3\<rparr>
     = Some \<lparr>buffer_content = ''a'', buffer_altVersionId = 2, buffer_undoStack = [(1, '''')]\<rparr>
   \<and> getAlternativeVersionId bufferHost
       \<lparr>buffer_content = ''a'', buffer_altVersionId = 2, buffer_undoStack = [(1, '''')]\<rparr> \<noteq> 3
   \<and> canUndo bufferHost
       \<lparr>buffer_content = ''a'', buffer_altVersionId = 2, buffer_undoStack = [(1, '''')]\<rparr>"
proof -
  let ?m = "\<lparr>buffer_content = ''abcd'', buffer_altVersionId = 5,
             buffer_undoStack = [(2, ''a''), (1, '''')]\<rparr>"
  let ?m' = "\<lparr>buffer_content = ''a'', buffer_altVersionId = 2, buffer_undoStack = [(1, '''')]\<rparr>"
  have u: "undo bufferHost ?m = ?m'"
    by (simp add: bufferHost_def buffer_undo_def)
  have p: "undoPending bufferHost 3 ?m"
    by (simp add: undoPending_def bufferHost_def)
  have q: "\<not> undoPending bufferHost 3 ?m'"
    by (simp add: undoPending_def bufferHost_def)
  have "cancelLoop bufferHost 3 ?m' = Some ?m'"
    using q by (subst cancelLoop.simps) simp
  then have "cancelLoop bufferHost 3 ?m = Some ?m'"
    using p u by (subst cancelLoop.simps) simp
  then show ?thesis
    by (simp add: cancel_def targetAltVersion_def bufferHost_def)
qed

text \<open>
  Claim C2, amended. For a session whose text model is not disposed, \<open>cancel\<close> returns
  \<open>m'\<close> exactly when \<open>m'\<close> is reached from the model by undo steps such that, at every
  state before \<open>m'\<close>, the alternative version id is strictly above the target version
  (the snapshot version if present, else the initial one) and an undo step is available,
  and at \<open>m'\<close> one of the two fails: \<open>cancel\<close> stops at the first state whose version id
  is at or below the target, or that has no undo step. In particular, when the undo steps
  lead back to a state \<open>snap\<close> whose version id is the target one, through states above the
  target in which undo is available, \<open>cancel\<close> returns exactly \<open>snap\<close>.
\<close>

theorem cancel_stops_at_first_state_not_above_target:
  assumes "\<not> isDisposed host (textModelN s)"
  shows "((cancel host s = Some m') =
            (\<exists>k. m' = (undo host ^^ k) (textModelN s)
               \<and> (\<forall>i<k. targetAltVersion s < getAlternativeVersionId host ((undo host ^^ i) (textModelN s))
                         \<and> canUndo host ((undo host ^^ i) (textModelN s)))
               \<and> (getAlternativeVersionId host m' \<le> targetAltVersion s \<or> \<not> canUndo host m')))
         \<and> ((undo host ^^ j) (textModelN s) = snap
              \<and> getAlternativeVersionId host snap = targetAltVersion s
              \<and> (\<forall>i<j. targetAltVersion s < getAlternativeVersionId host ((undo host ^^ i) (textModelN s))
                        \<and> canUndo host ((undo host ^^ i) (textModelN s)))
             \<longrightarrow> cancel host s = Some snap)"
proof -
  have c: "cancel host s = cancelLoop host (targetAltVersion s) (textModelN s)"
    using assms by (simp add: cancel_def)
  have a: "(cancel host s = Some m') =
            (\<exists>k. m' = (undo host ^^ k) (textModelN s)
               \<and> (\<forall>i<k. targetAltVersion s < getAlternativeVersionId host ((undo host ^^ i) (textModelN s))
                         \<and> canUndo host ((undo host ^^ i) (textModelN s)))
               \<and> (getAlternativeVersionId host m' \<le> targetAltVersion s \<or> \<not> canUndo host m'))"
    unfolding c cancelLoop_iff stopsAfter_def undoPending_def
    by (simp add: not_less)
  have b: "cancel host s = Some snap"
    if "(undo host ^^ j) (textModelN s) = snap"
      and "getAlternativeVersionId host snap = targetAltVersion s"
      and "\<forall>i<j. targetAltVersion s < getAlternativeVersionId host ((undo host ^^ i) (textModelN s))
                        \<and> canUndo host ((undo host ^^ i) (textModelN s))"
  proof -
    have "\<not> undoPending host (targetAltVersion s) ((undo host ^^ j) (textModelN s))"
      using that(1,2) by (simp add: undoPending_def)
    moreover have "\<forall>i<j. undoPending host (targetAltVersion s) ((undo host ^^ i) (textModelN s))"
      using that(3) by (simp add: undoPending_def)
    ultimately show ?thesis
      unfolding c using that(1) cancelLoop_exit by metis
  qed
  from a b show ?thesis by blast
qed

theorem cancel_stops_at_first_state_not_above_target_witness:
  "\<not> isDisposed bufferHost
       (textModelN \<lparr>textModelN =
          \<lparr>buffer_content = ''abc'', buffer_altVersionId = 5,
           buffer_undoStack = [(4, ''ab''), (3, ''a''), (1, '''')]\<rparr>,
          textModelNAltVersion = 1, textModelNSnapshotAltVersion = Some 3\<rparr>)
   \<and> cancel bufferHost
       \<lparr>textModelN =
          \<lparr>buffer_content = ''abc'', buffer_altVersionId = 5,
           buffer_undoStack = [(4, ''ab''), (3, ''a''), (1, '''')]\<rparr>,
        textModelNAltVersion = 1, textModelNSnapshotAltVersion = Some 3\<rparr>
     = Some \<lparr>buffer_content = ''a'', buffer_altVersionId = 3, buffer_undoStack = [(1, '''')]\<rparr>"
proof -
  let ?m = "\<lparr>buffer_content = ''abc'', buffer_altVersionId = 5,
             buffer_undoStack = [(4, ''ab''), (3, ''a''), (1, '''')]\<rparr>"
  let ?s = "\<lparr>textModelN = ?m, textModelNAltVersion = 1, textModelNSnapshotAltVersion = Some 3\<rparr>"
  let ?snap = "\<lparr>buffer_content = ''a'', buffer_altVersionId = 3, buffer_undoStack = [(1, '''')]\<rparr>"
  have nd: "\<not> isDisposed bufferHost (textModelN ?s)"
    by (simp add: bufferHost_def)
  have u2: "(undo bufferHost ^^ 2) (textModelN ?s) = ?snap"
    by (simp add: numeral_2_eq_2 bufferHost_def buffer_undo_def)
  have v: "getAlternativeVersionId bufferHost ?snap = targetAltVersion ?s"
    by (simp add: bufferHost_def targetAltVersion_def)
  have above: "\<forall>i<2. targetAltVersion ?s
        < getAlternativeVersionId bufferHost ((undo bufferHost ^^ i) (textModelN ?s))
      \<and> canUndo bufferHost ((undo bufferHost ^^ i) (textModelN ?s))"
    by (simp add: less_2_cases_iff bufferHost_def buffer_undo_def targetAltVersion_def)
  from cancel_stops_at_first_state_not_above_target [OF nd, of ?snap 2 ?snap] u2 v above
  have "cancel bufferHost ?s = Some ?snap" by blast
  with nd show ?thesis by simp
qed

section \<open>Properties of acceptInput\<close>




section \<open>Properties of SCMTreeSorter.compare\<close>

lemma compare_same_kind_flip:
  assumes p: "\<forall>x y. sgn (comparePaths host x y) = - sgn (comparePaths host y x)"
    and f: "\<forall>x y. sgn (compareFileNames host x y) = - sgn (compareFileNames host y x)"
    and s: "\<forall>x y. sgn (compareStrings host x y) = - sgn (compareStrings host y x)"
    and k: "elementKindOf one = elementKindOf other"
    and n: "elementKindOf one \<notin> {KindInput, KindActionButton, KindSeparator}"
  shows "case compare host viewMode viewSortKey one other of
           Inl e \<Rightarrow> compare host viewMode viewSortKey other one = Inl e
         | Inr r \<Rightarrow>
             (\<exists>r'. compare host viewMode viewSortKey other one = Inr r' \<and> sgn r' = - sgn r)"
proof -
  have p': "sgn (comparePaths host y x) = - sgn (comparePaths host x y)" for x y
    by (rule p [rule_format])
  have f': "sgn (compareFileNames host y x) = - sgn (compareFileNames host x y)" for x y
    by (rule f [rule_format])
  have s': "sgn (compareStrings host y x) = - sgn (compareStrings host x y)" for x y
    by (rule s [rule_format])
  show ?thesis
  proof (cases one)
    case (SCMRepository a)
    with k show ?thesis by (cases other) (simp_all add: elementKindOf_def compare_def)
  next
    case (SCMInput a)
    with n show ?thesis by (simp add: elementKindOf_def)
  next
    case (SCMActionButton a)
    with n show ?thesis by (simp add: elementKindOf_def)
  next
    case (SCMResourceGroup a)
    with k show ?thesis by (cases other) (simp_all add: elementKindOf_def compare_def)
  next
    case (SCMResource a)
    with k obtain b where o: "other = SCMResource b"
      by (cases other) (simp_all add: elementKindOf_def)
    show ?thesis
      unfolding SCMResource o
      by (cases viewMode; cases viewSortKey)
         (simp_all add: compare_def compareResources_def onBoth_def prop_sourceUri_def
            tooltipOrEmpty_def prop_decorations_tooltip_def resourceName_def
            isResourceNode_def,
          (intro conjI impI p' f' s')+)
  next
    case (SCMResourceNode a)
    with k obtain b where o: "other = SCMResourceNode b"
      by (cases other) (simp_all add: elementKindOf_def)
    show ?thesis
      unfolding SCMResourceNode o
      by (cases viewMode; cases viewSortKey)
         (simp_all add: compare_def compareResources_def onBoth_def prop_sourceUri_def
            tooltipOrEmpty_def prop_decorations_tooltip_def resourceName_def prop_name_def
            isResourceNode_def,
          (intro conjI impI p' f' s')+)
  next
    case (SCMHistoryItemGroup a)
    with k show ?thesis by (cases other) (simp_all add: elementKindOf_def compare_def)
  next
    case (SCMHistoryItem a)
    with k show ?thesis by (cases other) (simp_all add: elementKindOf_def compare_def)
  next
    case (SCMHistoryItemChange a)
    with k obtain b where o: "other = SCMHistoryItemChange b"
      by (cases other) (simp_all add: elementKindOf_def)
    show ?thesis
      unfolding SCMHistoryItemChange o
      by (cases viewMode)
         (simp_all add: compare_def onBoth_def prop_uri_def historyItemChangeName_def,
          (intro conjI impI p' f' s')+)
  next
    case (SCMHistoryItemChangeNode a)
    with k obtain b where o: "other = SCMHistoryItemChangeNode b"
      by (cases other) (simp_all add: elementKindOf_def)
    show ?thesis
      unfolding SCMHistoryItemChangeNode o
      by (cases viewMode)
         (simp_all add: compare_def onBoth_def prop_uri_def prop_name_def
            historyItemChangeName_def,
          (intro conjI impI p' f' s')+)
  next
    case (SCMViewSeparator a)
    with n show ?thesis by (simp add: elementKindOf_def)
  qed
qed

lemma compare_same_kind_zero:
  assumes "elementKindOf one = elementKindOf other"
    and "elementKindOf one
           \<in> {KindRepository, KindResourceGroup, KindHistoryItemGroup, KindHistoryItem}"
  shows "compare host viewMode viewSortKey one other = Inr 0"
  using assms by (cases one; cases other) (simp_all add: elementKindOf_def compare_def)

lemma compare_same_kind_single:
  assumes "elementKindOf one = elementKindOf other"
    and "elementKindOf one \<in> {KindInput, KindActionButton, KindSeparator}"
  shows "compare host viewMode viewSortKey one other = Inr (- 1)"
  using assms by (cases one; cases other) (simp_all add: elementKindOf_def compare_def)

text \<open>
  Claim C3, as stated, at the input boxes of two repositories, and at their action
  buttons: \<open>compare\<close> answers \<open>-1\<close> in both orders, so the two answers neither have
  opposite signs nor are both zero.
\<close>

theorem compare_two_inputs_both_negative:
  "compare exampleHost ViewModeList SortKeyPath
      (SCMInput \<lparr>input_repository = exampleRepository\<rparr>)
      (SCMInput \<lparr>input_repository = exampleHistoryRepository\<rparr>) = Inr (- 1)
   \<and> compare exampleHost ViewModeList SortKeyPath
      (SCMInput \<lparr>input_repository = exampleHistoryRepository\<rparr>)
      (SCMInput \<lparr>input_repository = exampleRepository\<rparr>) = Inr (- 1)
   \<and> compare exampleHost ViewModeList SortKeyPath
      (SCMActionButton \<lparr>actionButton_repository = exampleRepository\<rparr>)
      (SCMActionButton \<lparr>actionButton_repository = exampleHistoryRepository\<rparr>) = Inr (- 1)
   \<and> compare exampleHost ViewModeList SortKeyPath
      (SCMActionButton \<lparr>actionButton_repository = exampleHistoryRepository\<rparr>)
      (SCMActionButton \<lparr>actionButton_repository = exampleRepository\<rparr>) = Inr (- 1)"
  by (simp add: compare_def)

text \<open>
  Claim C3, amended. For two elements of the same kind, other than input box, action
  button and separator, \<open>compare\<close> has no antisymmetry violation as long as the three
  library comparers it calls have none: when it answers a number for one order it
  answers a number of the opposite sign (or zero for zero) for the other order, and when
  it throws for one order it throws the same error for the other. For two repositories,
  two resource groups, two history item groups and two history items the answer is zero.
  For two input boxes, two action buttons and two separators the answer is \<open>-1\<close>,
  whichever comes first: \<open>compare\<close> does not order these among themselves. The answer
  is a function of the two elements, the view mode and the sort key, so a repeated call
  gives the same answer.
\<close>

theorem compare_same_kind_antisymmetric:
  "((\<forall>x y. sgn (comparePaths host x y) = - sgn (comparePaths host y x))
      \<and> (\<forall>x y. sgn (compareFileNames host x y) = - sgn (compareFileNames host y x))
      \<and> (\<forall>x y. sgn (compareStrings host x y) = - sgn (compareStrings host y x))
      \<and> elementKindOf one = elementKindOf other
      \<and> elementKindOf one \<notin> {KindInput, KindActionButton, KindSeparator}
     \<longrightarrow> (case compare host viewMode viewSortKey one other of
            Inl e \<Rightarrow> compare host viewMode viewSortKey other one = Inl e
          | Inr r \<Rightarrow>
              (\<exists>r'. compare host viewMode viewSortKey other one = Inr r'
                    \<and> sgn r' = - sgn r)))
   \<and> (elementKindOf one = elementKindOf other
      \<and> elementKindOf one
           \<in> {KindRepository, KindResourceGroup, KindHistoryItemGroup, KindHistoryItem}
     \<longrightarrow> compare host viewMode viewSortKey one other = Inr 0)
   \<and> (elementKindOf one = elementKindOf other
      \<and> elementKindOf one \<in> {KindInput, KindActionButton, KindSeparator}
     \<longrightarrow> compare host viewMode viewSortKey one other = Inr (- 1))"
proof (intro conjI impI)
  assume "(\<forall>x y. sgn (comparePaths host x y) = - sgn (comparePaths host y x))
      \<and> (\<forall>x y. sgn (compareFileNames host x y) = - sgn (compareFileNames host y x))
      \<and> (\<forall>x y. sgn (compareStrings host x y) = - sgn (compareStrings host y x))
      \<and> elementKindOf one = elementKindOf other
      \<and> elementKindOf one \<notin> {KindInput, KindActionButton, KindSeparator}"
  then show "case compare host viewMode viewSortKey one other of
            Inl e \<Rightarrow> compare host viewMode viewSortKey other one = Inl e
          | Inr r \<Rightarrow>
              (\<exists>r'. compare host viewMode viewSortKey other one = Inr r'
                    \<and> sgn r' = - sgn r)"
    by (elim conjE) (rule compare_same_kind_flip)
next
  assume "elementKindOf one = elementKindOf other
      \<and> elementKindOf one
           \<in> {KindRepository, KindResourceGroup, KindHistoryItemGroup, KindHistoryItem}"
  then show "compare host viewMode viewSortKey one other = Inr 0"
    by (elim conjE) (rule compare_same_kind_zero)
next
  assume "elementKindOf one = elementKindOf other
      \<and> elementKindOf one \<in> {KindInput, KindActionButton, KindSeparator}"
  then show "compare host viewMode viewSortKey one other = Inr (- 1)"
    by (elim conjE) (rule compare_same_kind_single)
qed

theorem compare_same_kind_antisymmetric_witness:
  "compare exampleHost ViewModeList SortKeyPath
      (SCMResource \<lparr>resource_resourceGroup = exampleResourceGroup,
         resource_sourceUri = exampleUri, resource_decorations_tooltip = None\<rparr>)
      (SCMResource \<lparr>resource_resourceGroup = exampleResourceGroup,
         resource_sourceUri = exampleUri\<lparr>uri_path := ''/src/a.ts''\<rparr>,
         resource_decorations_tooltip = None\<rparr>) = Inr 3
   \<and> compare exampleHost ViewModeList SortKeyPath
      (SCMResource \<lparr>resource_resourceGroup = exampleResourceGroup,
         resource_sourceUri = exampleUri\<lparr>uri_path := ''/src/a.ts''\<rparr>,
         resource_decorations_tooltip = None\<rparr>)
      (SCMResource \<lparr>resource_resourceGroup = exampleResourceGroup,
         resource_sourceUri = exampleUri, resource_decorations_tooltip = None\<rparr>) = Inr (- 3)
   \<and> compare exampleHost ViewModeList SortKeyPath
      (SCMRepository exampleRepository) (SCMRepository exampleHistoryRepository) = Inr 0
   \<and> compare exampleHost ViewModeList SortKeyPath
      (SCMViewSeparator \<lparr>separator_repository = exampleRepository\<rparr>)
      (SCMViewSeparator \<lparr>separator_repository = exampleHistoryRepository\<rparr>) = Inr (- 1)"
proof -
  let ?one = "SCMResource \<lparr>resource_resourceGroup = exampleResourceGroup,
         resource_sourceUri = exampleUri, resource_decorations_tooltip = None\<rparr>"
  let ?other = "SCMResource \<lparr>resource_resourceGroup = exampleResourceGroup,
         resource_sourceUri = exampleUri\<lparr>uri_path := ''/src/a.ts''\<rparr>,
         resource_decorations_tooltip = None\<rparr>"
  have anti: "(\<forall>x y. sgn (comparePaths exampleHost x y) = - sgn (comparePaths exampleHost y x))
      \<and> (\<forall>x y. sgn (compareFileNames exampleHost x y)
                 = - sgn (compareFileNames exampleHost y x))
      \<and> (\<forall>x y. sgn (compareStrings exampleHost x y) = - sgn (compareStrings exampleHost y x))"
    by (simp add: exampleHost_def sgn_if)
  have kinds: "elementKindOf ?one = elementKindOf ?other
      \<and> elementKindOf ?one \<notin> {KindInput, KindActionButton, KindSeparator}"
    by (simp add: elementKindOf_def)
  have one: "compare exampleHost ViewModeList SortKeyPath ?one ?other = Inr 3"
    by (simp add: compare_def compareResources_def onBoth_def prop_sourceUri_def
          exampleHost_def exampleUri_def)
  have "case compare exampleHost ViewModeList SortKeyPath ?one ?other of
            Inl e \<Rightarrow> compare exampleHost ViewModeList SortKeyPath ?other ?one = Inl e
          | Inr r \<Rightarrow>
              (\<exists>r'. compare exampleHost ViewModeList SortKeyPath ?other ?one = Inr r'
                    \<and> sgn r' = - sgn r)"
    by (rule compare_same_kind_antisymmetric
          [where host = exampleHost and one = ?one and other = ?other
             and viewMode = ViewModeList and viewSortKey = SortKeyPath,
           THEN conjunct1, THEN mp])
       (intro conjI anti [THEN conjunct1] anti [THEN conjunct2, THEN conjunct1]
          anti [THEN conjunct2, THEN conjunct2] kinds [THEN conjunct1]
          kinds [THEN conjunct2])
  with one obtain r' where
    "compare exampleHost ViewModeList SortKeyPath ?other ?one = Inr r'" "sgn r' = - 1"
    by auto
  moreover have "compare exampleHost ViewModeList SortKeyPath ?other ?one = Inr (- 3)"
    by (simp add: compare_def compareResources_def onBoth_def prop_sourceUri_def
          exampleHost_def exampleUri_def)
  moreover have "compare exampleHost ViewModeList SortKeyPath
      (SCMRepository exampleRepository) (SCMRepository exampleHistoryRepository) = Inr 0"
    by (rule compare_same_kind_antisymmetric
          [where one = "SCMRepository exampleRepository"
             and other = "SCMRepository exampleHistoryRepository",
           THEN conjunct2, THEN conjunct1, THEN mp])
       (simp add: elementKindOf_def)
  moreover have "compare exampleHost ViewModeList SortKeyPath
      (SCMViewSeparator \<lparr>separator_repository = exampleRepository\<rparr>)
      (SCMViewSeparator \<lparr>separator_repository = exampleHistoryRepository\<rparr>) = Inr (- 1)"
    by (rule compare_same_kind_antisymmetric
          [where one = "SCMViewSeparator \<lparr>separator_repository = exampleRepository\<rparr>"
             and other = "SCMViewSeparator \<lparr>separator_repository = exampleHistoryRepository\<rparr>",
           THEN conjunct2, THEN conjunct2, THEN mp])
       (simp add: elementKindOf_def)
  ultimately show ?thesis using one by (intro conjI) assumption+
qed

text \<open>
  Claim C4, as stated, at a repository and the input box of that repository: with the
  repository first, \<open>compare\<close> throws \<open>Invalid comparison\<close> instead of answering a
  negative number, and with the input box first it answers \<open>-1\<close>, which puts the input
  box before the repository.
\<close>

theorem compare_repository_with_input_throws:
  "compare exampleHost ViewModeList SortKeyPath
      (SCMRepository exampleRepository) (SCMInput \<lparr>input_repository = exampleRepository\<rparr>)
     = Inl InvalidComparison
   \<and> compare exampleHost ViewModeList SortKeyPath
      (SCMInput \<lparr>input_repository = exampleRepository\<rparr>) (SCMRepository exampleRepository)
     = Inr (- 1)"
  by (simp add: compare_def)

text \<open>
  Claim C4, amended. For two elements of distinct kinds among input box, action button,
  resource group, separator and history item group, \<open>compare\<close> answers \<open>-1\<close> when the
  first one's kind comes earlier in the order input box, action button, resource group,
  separator, history item group, and \<open>1\<close> otherwise. A repository compared, as first
  argument, with anything that is not a repository throws \<open>Invalid comparison\<close>. So does
  a history item as first argument against a second argument that is not a history item,
  and a history-item change or change folder as first argument against a second argument
  that is not a history-item change (list mode), or neither a change nor a change folder
  (tree mode); in both cases unless the second argument is an input box or an action
  button, which are recognised before.
\<close>

theorem compare_kind_order_without_repository:
  "(specKindOrder one = Some i \<and> specKindOrder other = Some j \<and> i \<noteq> j
      \<and> \<not> isSCMRepository one \<and> \<not> isSCMRepository other
     \<longrightarrow> compare host viewMode viewSortKey one other = Inr (if i < j then - 1 else 1))
   \<and> (isSCMRepository one \<and> \<not> isSCMRepository other
     \<longrightarrow> compare host viewMode viewSortKey one other = Inl InvalidComparison)
   \<and> (isSCMHistoryItemTreeElement one \<and> \<not> isSCMHistoryItemTreeElement other
      \<and> \<not> isSCMInput other \<and> \<not> isSCMActionButton other
     \<longrightarrow> compare host viewMode viewSortKey one other = Inl InvalidComparison)
   \<and> ((isSCMHistoryItemChangeTreeElement one \<or> isSCMHistoryItemChangeNode one)
      \<and> \<not> isSCMInput other \<and> \<not> isSCMActionButton other
      \<and> \<not> isSCMHistoryItemChangeTreeElement other
      \<and> (viewMode = ViewModeList \<or> \<not> isSCMHistoryItemChangeNode other)
     \<longrightarrow> compare host viewMode viewSortKey one other = Inl InvalidComparison)"
proof -
  have a: "compare host viewMode viewSortKey one other = Inr (if i < j then - 1 else 1)"
    if "specKindOrder one = Some i" "specKindOrder other = Some j" "i \<noteq> j"
       "\<not> isSCMRepository one" "\<not> isSCMRepository other"
    using that by (cases one; cases other) (auto simp: compare_def specKindOrder_def)
  have b: "compare host viewMode viewSortKey one other = Inl InvalidComparison"
    if "isSCMRepository one" "\<not> isSCMRepository other"
    using that by (simp add: compare_def)
  have c: "compare host viewMode viewSortKey one other = Inl InvalidComparison"
    if "isSCMHistoryItemTreeElement one" "\<not> isSCMHistoryItemTreeElement other"
       "\<not> isSCMInput other" "\<not> isSCMActionButton other"
    using that by (cases one) (simp_all add: compare_def)
  have d: "compare host viewMode viewSortKey one other = Inl InvalidComparison"
    if "isSCMHistoryItemChangeTreeElement one \<or> isSCMHistoryItemChangeNode one"
       "\<not> isSCMInput other" "\<not> isSCMActionButton other"
       "\<not> isSCMHistoryItemChangeTreeElement other"
       "viewMode = ViewModeList \<or> \<not> isSCMHistoryItemChangeNode other"
    using that by (cases one) (auto simp: compare_def)
  from a b c d show ?thesis by blast
qed

theorem compare_kind_order_without_repository_witness:
  "compare exampleHost ViewModeTree SortKeyName
      (SCMActionButton \<lparr>actionButton_repository = exampleRepository\<rparr>)
      (SCMViewSeparator \<lparr>separator_repository = exampleRepository\<rparr>) = Inr (- 1)
   \<and> compare exampleHost ViewModeTree SortKeyName
      (SCMViewSeparator \<lparr>separator_repository = exampleRepository\<rparr>)
      (SCMActionButton \<lparr>actionButton_repository = exampleRepository\<rparr>) = Inr 1
   \<and> compare exampleHost ViewModeTree SortKeyName
      (SCMRepository exampleRepository)
      (SCMViewSeparator \<lparr>separator_repository = exampleRepository\<rparr>) = Inl InvalidComparison"
  using compare_kind_order_without_repository
    [of "SCMActionButton \<lparr>actionButton_repository = exampleRepository\<rparr>" 2
        "SCMViewSeparator \<lparr>separator_repository = exampleRepository\<rparr>" 4
        exampleHost ViewModeTree SortKeyName]
    compare_kind_order_without_repository
    [of "SCMViewSeparator \<lparr>separator_repository = exampleRepository\<rparr>" 4
        "SCMActionButton \<lparr>actionButton_repository = exampleRepository\<rparr>" 2
        exampleHost ViewModeTree SortKeyName]
    compare_kind_order_without_repository
    [of "SCMRepository exampleRepository" 0
        "SCMViewSeparator \<lparr>separator_repository = exampleRepository\<rparr>" 4
        exampleHost ViewModeTree SortKeyName]
  by (simp add: specKindOrder_def)

section \<open>Properties of hasChildren\<close>

text \<open>
  Claim C10. \<open>hasChildren\<close> looks at the kind of its argument only, and at the number of
  children of a folder node: false for every input box, action button, resource,
  history-item change and separator; true for every repository, resource group, history
  item group and history item; for a folder node (of the resource tree, and likewise of
  the tree of history-item changes, which \<open>ResourceTree.isResourceNode\<close> accepts too) true
  exactly when \<open>childrenCount > 0\<close>; for the view service true exactly when a repository
  is visible; and it throws for any other value.
\<close>

theorem hasChildren_by_kind:
  "hasChildren visibleRepositories (Element (SCMInput i)) = Inr False
   \<and> hasChildren visibleRepositories (Element (SCMActionButton b)) = Inr False
   \<and> hasChildren visibleRepositories (Element (SCMResource r)) = Inr False
   \<and> hasChildren visibleRepositories (Element (SCMHistoryItemChange c)) = Inr False
   \<and> hasChildren visibleRepositories (Element (SCMViewSeparator s)) = Inr False
   \<and> hasChildren visibleRepositories (Element (SCMRepository repo)) = Inr True
   \<and> hasChildren visibleRepositories (Element (SCMResourceGroup g)) = Inr True
   \<and> hasChildren visibleRepositories (Element (SCMHistoryItemGroup hg)) = Inr True
   \<and> hasChildren visibleRepositories (Element (SCMHistoryItem h)) = Inr True
   \<and> hasChildren visibleRepositories (Element (SCMResourceNode n))
       = Inr (resourceNode_childrenCount n > 0)
   \<and> hasChildren visibleRepositories (Element (SCMHistoryItemChangeNode cn))
       = Inr (historyItemChangeNode_childrenCount cn > 0)
   \<and> hasChildren visibleRepositories ViewService = Inr (visibleRepositories \<noteq> [])
   \<and> hasChildren visibleRepositories OtherValue = Inl HasChildrenNotImplemented"
  by (simp add: hasChildren_def)

theorem hasChildren_by_kind_witness:
  "hasChildren [exampleRepository] ViewService = Inr True
   \<and> hasChildren [] ViewService = Inr False
   \<and> hasChildren [] (Element (SCMRepository exampleRepository)) = Inr True
   \<and> hasChildren [] (Element (SCMInput \<lparr>input_repository = exampleRepository\<rparr>)) = Inr False
   \<and> hasChildren [] OtherValue = Inl HasChildrenNotImplemented"
  using hasChildren_by_kind [of "[exampleRepository]"]
    hasChildren_by_kind [of "[]" "\<lparr>input_repository = exampleRepository\<rparr>" _ _ _ _ exampleRepository]
  by simp

section \<open>Properties of getSCMResourceId\<close>
























section \<open>Properties of the history provider cache\<close>

text \<open>
  Claim C9. The history items \<open>(a/b, c)\<close> and \<open>(a, b/c)\<close> (item id, first parent id) are
  different and have the same cache key \<open>a/b/c\<close>. So after the changes of the first have
  been fetched into an empty cache, \<open>getHistoryItemChanges\<close> for the second finds them
  under its own key and returns the first item's changes (the file \<open>/a/b\<close>), not what
  the provider has for the second (the file \<open>/a\<close>), which the same call on an empty
  cache returns.
\<close>

theorem historyItemChangesKey_not_injective:
  "historyItemChangesKey (exampleHistoryItem ''a/b'' [''c''])
     = historyItemChangesKey (exampleHistoryItem ''a'' [''b/c''])
   \<and> historyItemChangesKey (exampleHistoryItem ''a/b'' [''c'']) = ''a/b/c''
   \<and> (historyItem_id (exampleHistoryItem ''a/b'' [''c'']),
       historyItemParentId (exampleHistoryItem ''a/b'' [''c'']))
     \<noteq> (historyItem_id (exampleHistoryItem ''a'' [''b/c'']),
        historyItemParentId (exampleHistoryItem ''a'' [''b/c'']))
   \<and> map (\<lambda>c. uri_path (historyItemChange_uri c))
       (fst (getHistoryItemChanges
          (snd (getHistoryItemChanges Map.empty (exampleHistoryItem ''a/b'' [''c''])))
          (exampleHistoryItem ''a'' [''b/c''])))
     = [''/a/b'']
   \<and> map (\<lambda>c. uri_path (historyItemChange_uri c))
       (fst (getHistoryItemChanges Map.empty (exampleHistoryItem ''a'' [''b/c''])))
     = [''/a'']"
  by (simp add: historyItemChangesKey_def historyItemParentId_def getHistoryItemChanges_def
        getHistoryProviderCacheEntry_def exampleHistoryItem_def exampleHistoryRepository_def
        exampleHistoryProvider_def Let_def)

text \<open>
  Claim C6. \<open>getHistoryItemGroups\<close> returns the empty list, and leaves the cache as it
  is, when the provider has no history provider, when the history provider has no
  current history item group, when both settings are \<open>never\<close>, and when the common
  ancestor is asked for (the cache has neither group for the repository) and there is
  none. In every other case it returns the incoming group exactly when it exists and
  \<open>showIncomingChanges\<close> is \<open>always\<close>, or \<open>auto\<close> with a positive count, followed by
  the outgoing group under the same condition on \<open>showOutgoingChanges\<close>. The two groups
  are those of the cache entry when it has one of them, and the cache stays as it is.
  Otherwise they are built from the common ancestor and stored in the cache: the
  incoming group exists exactly when the current group has a base and counts the items
  behind the ancestor, the outgoing group always exists and counts the items ahead.
\<close>

theorem getHistoryItemGroups_visibility:
  "((historyProvider (repository_provider element) = None
      \<or> (\<exists>hp. historyProvider (repository_provider element) = Some hp
              \<and> currentHistoryItemGroup hp = None)
      \<or> (showIncomingChanges configuration = Never \<and> showOutgoingChanges configuration = Never)
      \<or> (\<exists>hp current. historyProvider (repository_provider element) = Some hp
              \<and> currentHistoryItemGroup hp = Some current
              \<and> (cache element = None
                   \<or> (\<exists>entry. cache element = Some entry
                         \<and> incomingHistoryItemGroup entry = None
                         \<and> outgoingHistoryItemGroup entry = None))
              \<and> resolveHistoryItemGroupCommonAncestor hp (group_id current)
                   (map_option base_id (group_base current)) = None))
     \<longrightarrow> getHistoryItemGroups configuration cache element = ([], cache))
   \<and> (historyProvider (repository_provider element) = Some hp
       \<and> currentHistoryItemGroup hp = Some current
       \<and> \<not> (showIncomingChanges configuration = Never
             \<and> showOutgoingChanges configuration = Never)
       \<and> cache element = Some entry
       \<and> (incomingHistoryItemGroup entry \<noteq> None \<or> outgoingHistoryItemGroup entry \<noteq> None)
     \<longrightarrow> getHistoryItemGroups configuration cache element
          = ((case incomingHistoryItemGroup entry of
                None \<Rightarrow> []
              | Some g \<Rightarrow>
                  if showIncomingChanges configuration = Always
                     \<or> (showIncomingChanges configuration = Auto
                         \<and> (case historyItemGroup_count g of None \<Rightarrow> 0 | Some c \<Rightarrow> c) > 0)
                  then [g] else [])
             @ (case outgoingHistoryItemGroup entry of
                  None \<Rightarrow> []
                | Some g \<Rightarrow>
                    if showOutgoingChanges configuration = Always
                       \<or> (showOutgoingChanges configuration = Auto
                           \<and> (case historyItemGroup_count g of None \<Rightarrow> 0 | Some c \<Rightarrow> c) > 0)
                    then [g] else []),
             cache))
   \<and> (historyProvider (repository_provider element) = Some hp
       \<and> currentHistoryItemGroup hp = Some current
       \<and> \<not> (showIncomingChanges configuration = Never
             \<and> showOutgoingChanges configuration = Never)
       \<and> (cache element = None
              \<and> entry = \<lparr>incomingHistoryItemGroup = None, outgoingHistoryItemGroup = None,
                          historyItemChanges = Map.empty\<rparr>
            \<or> cache element = Some entry
              \<and> incomingHistoryItemGroup entry = None \<and> outgoingHistoryItemGroup entry = None)
       \<and> resolveHistoryItemGroupCommonAncestor hp (group_id current)
            (map_option base_id (group_base current)) = Some ancestor
       \<and> incoming =
            (case group_base current of
               None \<Rightarrow> None
             | Some base \<Rightarrow>
                 Some \<lparr>historyItemGroup_id = base_id base,
                       historyItemGroup_label = base_label base,
                       historyItemGroup_ariaLabel = ''Incoming changes from '' @ base_label base,
                       historyItemGroup_icon = ArrowCircleDown,
                       historyItemGroup_direction = Incoming,
                       historyItemGroup_ancestor = ancestor_id ancestor,
                       historyItemGroup_count = Some (behind ancestor),
                       historyItemGroup_repository = element\<rparr>)
       \<and> outgoing =
            \<lparr>historyItemGroup_id = group_id current,
             historyItemGroup_label = group_label current,
             historyItemGroup_ariaLabel = ''Outgoing changes to '' @ group_label current,
             historyItemGroup_icon = ArrowCircleUp,
             historyItemGroup_direction = Outgoing,
             historyItemGroup_ancestor = ancestor_id ancestor,
             historyItemGroup_count = Some (ahead ancestor),
             historyItemGroup_repository = element\<rparr>
     \<longrightarrow> getHistoryItemGroups configuration cache element
          = ((case incoming of
                None \<Rightarrow> []
              | Some g \<Rightarrow>
                  if showIncomingChanges configuration = Always
                     \<or> (showIncomingChanges configuration = Auto \<and> behind ancestor > 0)
                  then [g] else [])
             @ (if showOutgoingChanges configuration = Always
                   \<or> (showOutgoingChanges configuration = Auto \<and> ahead ancestor > 0)
                then [outgoing] else []),
             cache(element \<mapsto> entry\<lparr>incomingHistoryItemGroup := incoming,
                                       outgoingHistoryItemGroup := Some outgoing\<rparr>)))"
proof -
  have empty1: "getHistoryItemGroups configuration cache element = ([], cache)"
    if "historyProvider (repository_provider element) = None"
    using that by (simp add: getHistoryItemGroups_def)
  have empty2: "getHistoryItemGroups configuration cache element = ([], cache)"
    if "historyProvider (repository_provider element) = Some hp'"
       "currentHistoryItemGroup hp' = None" for hp'
    using that by (simp add: getHistoryItemGroups_def)
  have empty3: "getHistoryItemGroups configuration cache element = ([], cache)"
    if "showIncomingChanges configuration = Never \<and> showOutgoingChanges configuration = Never"
    using that by (simp add: getHistoryItemGroups_def split: option.splits)
  have empty4: "getHistoryItemGroups configuration cache element = ([], cache)"
    if "historyProvider (repository_provider element) = Some hp'"
       "currentHistoryItemGroup hp' = Some current'"
       "cache element = None
          \<or> (\<exists>entry. cache element = Some entry
                \<and> incomingHistoryItemGroup entry = None
                \<and> outgoingHistoryItemGroup entry = None)"
       "resolveHistoryItemGroupCommonAncestor hp' (group_id current')
          (map_option base_id (group_base current')) = None" for hp' current'
  proof -
    from that(3)
    have "incomingHistoryItemGroup (getHistoryProviderCacheEntry cache element) = None"
      "outgoingHistoryItemGroup (getHistoryProviderCacheEntry cache element) = None"
      by (auto simp: getHistoryProviderCacheEntry_def)
    then have "resolveHistoryItemGroups cache element hp' current' = None"
      using that(4) by (simp add: resolveHistoryItemGroups_def Let_def)
    with that(1,2) show ?thesis by (simp add: getHistoryItemGroups_def)
  qed
  have A: "(historyProvider (repository_provider element) = None
      \<or> (\<exists>hp. historyProvider (repository_provider element) = Some hp
              \<and> currentHistoryItemGroup hp = None)
      \<or> (showIncomingChanges configuration = Never \<and> showOutgoingChanges configuration = Never)
      \<or> (\<exists>hp current. historyProvider (repository_provider element) = Some hp
              \<and> currentHistoryItemGroup hp = Some current
              \<and> (cache element = None
                   \<or> (\<exists>entry. cache element = Some entry
                         \<and> incomingHistoryItemGroup entry = None
                         \<and> outgoingHistoryItemGroup entry = None))
              \<and> resolveHistoryItemGroupCommonAncestor hp (group_id current)
                   (map_option base_id (group_base current)) = None))
     \<longrightarrow> getHistoryItemGroups configuration cache element = ([], cache)"
    using empty1 empty2 empty3 empty4 by blast
  have B: "getHistoryItemGroups configuration cache element
          = ((case incomingHistoryItemGroup entry of
                None \<Rightarrow> []
              | Some g \<Rightarrow>
                  if showIncomingChanges configuration = Always
                     \<or> (showIncomingChanges configuration = Auto
                         \<and> (case historyItemGroup_count g of None \<Rightarrow> 0 | Some c \<Rightarrow> c) > 0)
                  then [g] else [])
             @ (case outgoingHistoryItemGroup entry of
                  None \<Rightarrow> []
                | Some g \<Rightarrow>
                    if showOutgoingChanges configuration = Always
                       \<or> (showOutgoingChanges configuration = Auto
                           \<and> (case historyItemGroup_count g of None \<Rightarrow> 0 | Some c \<Rightarrow> c) > 0)
                    then [g] else []),
             cache)"
    if h: "historyProvider (repository_provider element) = Some hp"
       "currentHistoryItemGroup hp = Some current"
       "\<not> (showIncomingChanges configuration = Never
             \<and> showOutgoingChanges configuration = Never)"
       "cache element = Some entry"
       "incomingHistoryItemGroup entry \<noteq> None \<or> outgoingHistoryItemGroup entry \<noteq> None"
  proof -
    from h(4) have e: "getHistoryProviderCacheEntry cache element = entry"
      by (simp add: getHistoryProviderCacheEntry_def)
    from h(5) have "\<not> (incomingHistoryItemGroup entry = None
        \<and> outgoingHistoryItemGroup entry = None)" by simp
    then have r: "resolveHistoryItemGroups cache element hp current
        = Some (incomingHistoryItemGroup entry, outgoingHistoryItemGroup entry, cache)"
      unfolding resolveHistoryItemGroups_def Let_def e by (rule if_not_P)
    from h(3) have n: "(if showIncomingChanges configuration = Never
             \<and> showOutgoingChanges configuration = Never then x else y) = y" for x y :: 'z
      by (rule if_not_P)
    show ?thesis
      by (simp add: getHistoryItemGroups_def h(1,2) n r pushIfShown_def)
  qed
  have C: "getHistoryItemGroups configuration cache element
          = ((case incoming of
                None \<Rightarrow> []
              | Some g \<Rightarrow>
                  if showIncomingChanges configuration = Always
                     \<or> (showIncomingChanges configuration = Auto \<and> behind ancestor > 0)
                  then [g] else [])
             @ (if showOutgoingChanges configuration = Always
                   \<or> (showOutgoingChanges configuration = Auto \<and> ahead ancestor > 0)
                then [outgoing] else []),
             cache(element \<mapsto> entry\<lparr>incomingHistoryItemGroup := incoming,
                                       outgoingHistoryItemGroup := Some outgoing\<rparr>))"
    if h: "historyProvider (repository_provider element) = Some hp"
       "currentHistoryItemGroup hp = Some current"
       "\<not> (showIncomingChanges configuration = Never
             \<and> showOutgoingChanges configuration = Never)"
       "cache element = None
              \<and> entry = \<lparr>incomingHistoryItemGroup = None, outgoingHistoryItemGroup = None,
                          historyItemChanges = Map.empty\<rparr>
            \<or> cache element = Some entry
              \<and> incomingHistoryItemGroup entry = None \<and> outgoingHistoryItemGroup entry = None"
       "resolveHistoryItemGroupCommonAncestor hp (group_id current)
            (map_option base_id (group_base current)) = Some ancestor"
       "incoming =
            (case group_base current of
               None \<Rightarrow> None
             | Some base \<Rightarrow>
                 Some \<lparr>historyItemGroup_id = base_id base,
                       historyItemGroup_label = base_label base,
                       historyItemGroup_ariaLabel = ''Incoming changes from '' @ base_label base,
                       historyItemGroup_icon = ArrowCircleDown,
                       historyItemGroup_direction = Incoming,
                       historyItemGroup_ancestor = ancestor_id ancestor,
                       historyItemGroup_count = Some (behind ancestor),
                       historyItemGroup_repository = element\<rparr>)"
       "outgoing =
            \<lparr>historyItemGroup_id = group_id current,
             historyItemGroup_label = group_label current,
             historyItemGroup_ariaLabel = ''Outgoing changes to '' @ group_label current,
             historyItemGroup_icon = ArrowCircleUp,
             historyItemGroup_direction = Outgoing,
             historyItemGroup_ancestor = ancestor_id ancestor,
             historyItemGroup_count = Some (ahead ancestor),
             historyItemGroup_repository = element\<rparr>"
  proof -
    from h(4) have e: "getHistoryProviderCacheEntry cache element = entry"
      and i: "incomingHistoryItemGroup entry = None"
      and out: "outgoingHistoryItemGroup entry = None"
      by (auto simp: getHistoryProviderCacheEntry_def)
    have r: "resolveHistoryItemGroups cache element hp current
        = Some (incoming, Some outgoing,
                cache(element \<mapsto> entry\<lparr>incomingHistoryItemGroup := incoming,
                                          outgoingHistoryItemGroup := Some outgoing\<rparr>))"
      unfolding resolveHistoryItemGroups_def Let_def e
      by (simp add: i out h(5) h(6) h(7))
    from h(3) have n: "(if showIncomingChanges configuration = Never
             \<and> showOutgoingChanges configuration = Never then x else y) = y" for x y :: 'z
      by (rule if_not_P)
    have p1: "pushIfShown (showIncomingChanges configuration) incoming
        = (case incoming of
                None \<Rightarrow> []
              | Some g \<Rightarrow>
                  if showIncomingChanges configuration = Always
                     \<or> (showIncomingChanges configuration = Auto \<and> behind ancestor > 0)
                  then [g] else [])"
      by (cases "group_base current") (simp_all add: pushIfShown_def h(6))
    have p2: "pushIfShown (showOutgoingChanges configuration) (Some outgoing)
        = (if showOutgoingChanges configuration = Always
                   \<or> (showOutgoingChanges configuration = Auto \<and> ahead ancestor > 0)
                then [outgoing] else [])"
      by (simp add: pushIfShown_def h(7))
    show ?thesis
      by (simp only: getHistoryItemGroups_def h(1,2) n r p1 p2 option.case prod.case)
  qed
  show ?thesis
    by (intro conjI impI A; (elim conjE)?; (rule B C; assumption)?)
qed

theorem getHistoryItemGroups_visibility_witness:
  "getHistoryItemGroups \<lparr>showIncomingChanges = Auto, showOutgoingChanges = Always\<rparr>
      Map.empty exampleHistoryRepository
     = ([\<lparr>historyItemGroup_id = ''main'', historyItemGroup_label = ''main'',
          historyItemGroup_ariaLabel = ''Outgoing changes to main'',
          historyItemGroup_icon = ArrowCircleUp, historyItemGroup_direction = Outgoing,
          historyItemGroup_ancestor = ''0000'', historyItemGroup_count = Some 2,
          historyItemGroup_repository = exampleHistoryRepository\<rparr>],
        Map.empty(exampleHistoryRepository \<mapsto>
          \<lparr>incomingHistoryItemGroup =
             Some \<lparr>historyItemGroup_id = ''origin/main'', historyItemGroup_label = ''origin/main'',
                   historyItemGroup_ariaLabel = ''Incoming changes from origin/main'',
                   historyItemGroup_icon = ArrowCircleDown, historyItemGroup_direction = Incoming,
                   historyItemGroup_ancestor = ''0000'', historyItemGroup_count = Some 0,
                   historyItemGroup_repository = exampleHistoryRepository\<rparr>,
           outgoingHistoryItemGroup =
             Some \<lparr>historyItemGroup_id = ''main'', historyItemGroup_label = ''main'',
                   historyItemGroup_ariaLabel = ''Outgoing changes to main'',
                   historyItemGroup_icon = ArrowCircleUp, historyItemGroup_direction = Outgoing,
                   historyItemGroup_ancestor = ''0000'', historyItemGroup_count = Some 2,
                   historyItemGroup_repository = exampleHistoryRepository\<rparr>,
           historyItemChanges = Map.empty\<rparr>))
   \<and> fst (getHistoryItemGroups \<lparr>showIncomingChanges = Always, showOutgoingChanges = Always\<rparr>
        (snd (getHistoryItemGroups \<lparr>showIncomingChanges = Auto, showOutgoingChanges = Always\<rparr>
                Map.empty exampleHistoryRepository))
        exampleHistoryRepository)
     = [\<lparr>historyItemGroup_id = ''origin/main'', historyItemGroup_label = ''origin/main'',
         historyItemGroup_ariaLabel = ''Incoming changes from origin/main'',
         historyItemGroup_icon = ArrowCircleDown, historyItemGroup_direction = Incoming,
         historyItemGroup_ancestor = ''0000'', historyItemGroup_count = Some 0,
         historyItemGroup_repository = exampleHistoryRepository\<rparr>,
        \<lparr>historyItemGroup_id = ''main'', historyItemGroup_label = ''main'',
         historyItemGroup_ariaLabel = ''Outgoing changes to main'',
         historyItemGroup_icon = ArrowCircleUp, historyItemGroup_direction = Outgoing,
         historyItemGroup_ancestor = ''0000'', historyItemGroup_count = Some 2,
         historyItemGroup_repository = exampleHistoryRepository\<rparr>]
   \<and> getHistoryItemGroups \<lparr>showIncomingChanges = Never, showOutgoingChanges = Never\<rparr>
        Map.empty exampleHistoryRepository = ([], Map.empty)
   \<and> getHistoryItemGroups \<lparr>showIncomingChanges = Always, showOutgoingChanges = Always\<rparr>
        Map.empty exampleRepository = ([], Map.empty)"
proof -
  let ?cur = "\<lparr>group_id = ''main'', group_label = ''main'',
              group_base = Some \<lparr>base_id = ''origin/main'', base_label = ''origin/main''\<rparr>\<rparr>"
  let ?anc = "\<lparr>ancestor_id = ''0000'', ahead = 2, behind = 0\<rparr>"
  let ?inc = "\<lparr>historyItemGroup_id = ''origin/main'', historyItemGroup_label = ''origin/main'',
         historyItemGroup_ariaLabel = ''Incoming changes from origin/main'',
         historyItemGroup_icon = ArrowCircleDown, historyItemGroup_direction = Incoming,
         historyItemGroup_ancestor = ''0000'', historyItemGroup_count = Some 0,
         historyItemGroup_repository = exampleHistoryRepository\<rparr>"
  let ?out = "\<lparr>historyItemGroup_id = ''main'', historyItemGroup_label = ''main'',
         historyItemGroup_ariaLabel = ''Outgoing changes to main'',
         historyItemGroup_icon = ArrowCircleUp, historyItemGroup_direction = Outgoing,
         historyItemGroup_ancestor = ''0000'', historyItemGroup_count = Some 2,
         historyItemGroup_repository = exampleHistoryRepository\<rparr>"
  let ?none = "\<lparr>incomingHistoryItemGroup = None, outgoingHistoryItemGroup = None,
                  historyItemChanges = Map.empty\<rparr>"
  let ?entry = "\<lparr>incomingHistoryItemGroup = Some ?inc, outgoingHistoryItemGroup = Some ?out,
                 historyItemChanges = Map.empty\<rparr>"
  let ?cache' = "Map.empty(exampleHistoryRepository \<mapsto> ?entry)"
  let ?auto = "\<lparr>showIncomingChanges = Auto, showOutgoingChanges = Always\<rparr>"
  let ?always = "\<lparr>showIncomingChanges = Always, showOutgoingChanges = Always\<rparr>"
  let ?never = "\<lparr>showIncomingChanges = Never, showOutgoingChanges = Never\<rparr>"
  have hp: "historyProvider (repository_provider exampleHistoryRepository)
              = Some exampleHistoryProvider"
    by (simp add: exampleHistoryRepository_def)
  have cur: "currentHistoryItemGroup exampleHistoryProvider = Some ?cur"
    by (simp add: exampleHistoryProvider_def)
  have a: "getHistoryItemGroups ?auto Map.empty exampleHistoryRepository = ([?out], ?cache')"
  proof -
    note t = getHistoryItemGroups_visibility
      [where element = exampleHistoryRepository and cache = Map.empty
         and configuration = ?auto and hp = exampleHistoryProvider and current = ?cur
         and entry = ?none and ancestor = ?anc and incoming = "Some ?inc" and outgoing = ?out,
       THEN conjunct2, THEN conjunct2, THEN mp]
    have "getHistoryItemGroups ?auto Map.empty exampleHistoryRepository
       = ((case Some ?inc of
                None \<Rightarrow> []
              | Some g \<Rightarrow>
                  if showIncomingChanges ?auto = Always
                     \<or> (showIncomingChanges ?auto = Auto \<and> behind ?anc > 0)
                  then [g] else [])
             @ (if showOutgoingChanges ?auto = Always
                   \<or> (showOutgoingChanges ?auto = Auto \<and> ahead ?anc > 0)
                then [?out] else []),
             Map.empty(exampleHistoryRepository \<mapsto> ?none\<lparr>incomingHistoryItemGroup := Some ?inc,
                                       outgoingHistoryItemGroup := Some ?out\<rparr>))"
      by (rule t) (simp add: hp cur exampleHistoryProvider_def)
    then show ?thesis by simp
  qed
  have b: "getHistoryItemGroups ?always ?cache' exampleHistoryRepository
             = ([?inc, ?out], ?cache')"
  proof -
    note t = getHistoryItemGroups_visibility
      [where element = exampleHistoryRepository and cache = ?cache'
         and configuration = ?always and hp = exampleHistoryProvider and current = ?cur
         and entry = ?entry,
       THEN conjunct2, THEN conjunct1, THEN mp]
    have "getHistoryItemGroups ?always ?cache' exampleHistoryRepository
       = ((case incomingHistoryItemGroup ?entry of
                None \<Rightarrow> []
              | Some g \<Rightarrow>
                  if showIncomingChanges ?always = Always
                     \<or> (showIncomingChanges ?always = Auto
                         \<and> (case historyItemGroup_count g of None \<Rightarrow> 0 | Some c \<Rightarrow> c) > 0)
                  then [g] else [])
             @ (case outgoingHistoryItemGroup ?entry of
                  None \<Rightarrow> []
                | Some g \<Rightarrow>
                    if showOutgoingChanges ?always = Always
                       \<or> (showOutgoingChanges ?always = Auto
                           \<and> (case historyItemGroup_count g of None \<Rightarrow> 0 | Some c \<Rightarrow> c) > 0)
                    then [g] else []),
             ?cache')"
      by (rule t) (simp add: hp cur)
    then show ?thesis by simp
  qed
  have c: "getHistoryItemGroups ?never Map.empty exampleHistoryRepository = ([], Map.empty)"
    by (rule getHistoryItemGroups_visibility
      [where element = exampleHistoryRepository and cache = Map.empty
         and configuration = ?never, THEN conjunct1, THEN mp]) simp
  have d: "getHistoryItemGroups ?always Map.empty exampleRepository = ([], Map.empty)"
    by (rule getHistoryItemGroups_visibility
      [where element = exampleRepository and cache = Map.empty
         and configuration = ?always, THEN conjunct1, THEN mp])
       (simp add: exampleRepository_def exampleProvider_def)
  from a b c d show ?thesis by simp
qed

end
